theory Spec2Isabelle
  imports Complex_Main "HOL-Library.Word"
begin

unbundle bit_operations_syntax

section \<open>Python strings and their whitespace primitives\<close>

text \<open>
  A Python \<open>str\<close> is a sequence of Unicode code points; transcripts contain Devanagari,
  so a transcript is a list of code points. Language tags (\<open>en\<close>, \<open>hi\<close>, \<open>hi-en\<close>, and
  whatever the detector returns) are ASCII tags and are kept as \<open>string\<close>.
\<close>

type_synonym ustr = "nat list"

text \<open>\<open>str.isspace\<close> on one code point: the code points Python treats as whitespace.\<close>

definition py_isspace :: "nat \<Rightarrow> bool" where
  "py_isspace c =
     ((9 \<le> c \<and> c \<le> 13) \<or> (28 \<le> c \<and> c \<le> 32) \<or> c = 133 \<or> c = 160 \<or> c = 5760 \<or>
      (8192 \<le> c \<and> c \<le> 8202) \<or> c = 8232 \<or> c = 8233 \<or> c = 8239 \<or> c = 8287 \<or> c = 12288)"

text \<open>\<open>text.strip()\<close>: leading and trailing whitespace removed.\<close>

definition py_strip :: "ustr \<Rightarrow> ustr" where
  "py_strip s = rev (dropWhile py_isspace (rev (dropWhile py_isspace s)))"

text \<open>\<open>text.split()\<close>: the maximal runs of non-whitespace, in order.\<close>

fun py_split_from :: "ustr \<Rightarrow> ustr \<Rightarrow> ustr list" where
  "py_split_from w [] = (if w = [] then [] else [w])"
| "py_split_from w (c # cs) =
     (if py_isspace c then (if w = [] then py_split_from [] cs else w # py_split_from [] cs)
      else py_split_from (w @ [c]) cs)"

definition py_split :: "ustr \<Rightarrow> ustr list" where
  "py_split s = py_split_from [] s"

text \<open>Truthiness of an \<open>Optional[str]\<close>: \<open>None\<close> and the empty string are falsy.\<close>

fun truthy :: "ustr option \<Rightarrow> bool" where
  "truthy None = False"
| "truthy (Some s) = (s \<noteq> [])"

text \<open>\<open>xs[-n:]\<close> for \<open>n \<ge> 0\<close>: the last \<open>n\<close> elements; \<open>xs[-0:]\<close> is the whole list.\<close>

definition py_last_n :: "nat \<Rightarrow> 'a list \<Rightarrow> 'a list" where
  "py_last_n n xs = (if n = 0 then xs else drop (length xs - n) xs)"

section \<open>The language registry and the external collaborators\<close>

record lang_config =
  model :: string
  realtime_model :: string
  name :: string
  whisper_code :: "string option"

text \<open>
  \<open>LANGUAGE_MODELS\<close>; the model names depend on the deployment profile \<open>IS_RAILWAY\<close>, which
  the module reads here before the line that assigns it; the profile is a parameter.
\<close>

definition LANGUAGE_MODELS :: "bool \<Rightarrow> (string \<times> lang_config) list" where
  "LANGUAGE_MODELS railway =
     [(''en'', \<lparr>model = (if railway then ''tiny.en'' else ''base.en''),
               realtime_model = (if railway then ''tiny.en'' else ''base.en''),
               name = ''English'', whisper_code = Some ''en''\<rparr>),
      (''hi'', \<lparr>model = (if railway then ''tiny'' else ''base''),
               realtime_model = (if railway then ''tiny'' else ''base''),
               name = ''Hindi'', whisper_code = Some ''hi''\<rparr>),
      (''hi-en'', \<lparr>model = (if railway then ''tiny'' else ''base''),
                  realtime_model = (if railway then ''tiny'' else ''base''),
                  name = ''Hindi-English (Code-switching)'', whisper_code = None\<rparr>)]"

text \<open>\<open>lang in LANGUAGE_MODELS\<close>.\<close>

definition in_registry :: "bool \<Rightarrow> string \<Rightarrow> bool" where
  "in_registry railway l = (map_of (LANGUAGE_MODELS railway) l \<noteq> None)"

text \<open>
  What the processor takes from outside the repository: the deployment profile, whether the
  \<open>langdetect\<close> import succeeded, \<open>langdetect.detect\<close> (\<open>None\<close> when it raises), Python's
  Unicode \<open>str.lower\<close>, \<open>turndetect.strip_ending_punctuation\<close>, and the similarity test
  \<open>TextSimilarity.is_similar\<close> (built on \<open>difflib.SequenceMatcher\<close>).
\<close>

record env =
  is_railway :: bool
  langdetect_available :: bool
  langdetect_detect :: "ustr \<Rightarrow> string option"
  str_lower :: "ustr \<Rightarrow> ustr"
  strip_ending_punctuation :: "ustr \<Rightarrow> ustr"
  is_similar :: "ustr \<Rightarrow> ustr \<Rightarrow> real \<Rightarrow> bool"

definition PIPELINE_RESERVE_TIME_MS :: "env \<Rightarrow> real" where
  "PIPELINE_RESERVE_TIME_MS e = (if is_railway e then 0.025 else 0.015)"

definition LANGUAGE_DETECTION_MIN_WORDS :: nat where
  "LANGUAGE_DETECTION_MIN_WORDS = 3"

definition TRANSCRIPTION_CACHE_SIZE :: "env \<Rightarrow> nat" where
  "TRANSCRIPTION_CACHE_SIZE e = (if is_railway e then 200 else 1000)"

definition AUTO_SAVE_INTERVAL :: "env \<Rightarrow> nat" where
  "AUTO_SAVE_INTERVAL e = (if is_railway e then 50 else 100)"

definition SIMILARITY_THRESHOLD :: real where
  "SIMILARITY_THRESHOLD = 0.85"

section \<open>Transcription results\<close>

text \<open>The field \<open>text\<close> is \<open>result_text\<close> here (\<open>text\<close> is a keyword).\<close>

record TranscriptionResult =
  result_text :: ustr
  confidence :: real
  timestamp :: real
  language :: string
  is_final :: bool
  duration :: real
  word_count :: nat
  has_mixed_language :: bool

text \<open>
  \<open>TranscriptionResult.__init__\<close>; \<open>word_count or len(text.split()) if text else 0\<close> parses
  as \<open>(word_count or len(text.split())) if text else 0\<close>.
\<close>

definition new_result ::
  "ustr \<Rightarrow> real \<Rightarrow> real \<Rightarrow> string \<Rightarrow> bool \<Rightarrow> real \<Rightarrow> nat \<Rightarrow> bool \<Rightarrow> TranscriptionResult" where
  "new_result t c ts l f d wc m =
     \<lparr>result_text = t, confidence = c, timestamp = ts, language = l, is_final = f, duration = d,
      word_count = (if t \<noteq> [] then (if wc \<noteq> 0 then wc else length (py_split t)) else 0),
      has_mixed_language = m\<rparr>"

section \<open>Script mixing, language detection, confidence\<close>

text \<open>\<open>_has_mixed_scripts\<close>: the three regular expressions are character classes.\<close>

definition is_latin :: "nat \<Rightarrow> bool" where
  "is_latin c = ((97 \<le> c \<and> c \<le> 122) \<or> (65 \<le> c \<and> c \<le> 90))"

definition is_devanagari :: "nat \<Rightarrow> bool" where
  "is_devanagari c = (2304 \<le> c \<and> c \<le> 2431)"

definition is_other_indic :: "nat \<Rightarrow> bool" where
  "is_other_indic c = ((2432 \<le> c \<and> c \<le> 2559) \<or> (2560 \<le> c \<and> c \<le> 2687) \<or> (2688 \<le> c \<and> c \<le> 2815))"

definition has_mixed_scripts :: "ustr \<Rightarrow> bool" where
  "has_mixed_scripts t =
     (let has_latin = list_ex is_latin t;
          has_devanagari = list_ex is_devanagari t;
          has_other_indic = list_ex is_other_indic t
      in has_latin \<and> (has_devanagari \<or> has_other_indic))"

text \<open>The \<open>lang_mapping.get(detected, detected)\<close> of \<open>detect_language\<close>.\<close>

definition lang_mapping :: "string \<Rightarrow> string" where
  "lang_mapping d =
     (if d = ''hi'' then ''hi'' else if d = ''en'' then ''en'' else if d = ''ur'' then ''hi''
      else if d = ''pa'' then ''hi'' else if d = ''bn'' then ''hi'' else d)"

definition detect_language :: "env \<Rightarrow> ustr \<Rightarrow> string option" where
  "detect_language e t =
     (if \<not> langdetect_available e \<or> t = [] \<or> length (py_split t) < LANGUAGE_DETECTION_MIN_WORDS
      then None
      else (case langdetect_detect e t of
              None \<Rightarrow> None
            | Some detected \<Rightarrow>
                if has_mixed_scripts t then Some ''hi-en'' else Some (lang_mapping detected)))"

text \<open>\<open>self.detect_language(text) or self.current_language\<close>.\<close>

definition detect_or_current :: "env \<Rightarrow> string \<Rightarrow> ustr \<Rightarrow> string" where
  "detect_or_current e cur t =
     (case detect_language e t of None \<Rightarrow> cur | Some d \<Rightarrow> if d \<noteq> [] then d else cur)"

definition mean :: "real list \<Rightarrow> real" where
  "mean xs = sum_list xs / real (length xs)"

text \<open>
  \<open>_estimate_snr\<close>. Floats are read as reals. The mean of an empty slice is NaN in numpy and
  \<open>NaN > 0\<close> is false; here it is \<open>0\<close> and \<open>0 > 0\<close> is false: both take the \<open>30\<close> branch.
\<close>

definition estimate_snr :: "real list \<Rightarrow> real" where
  "estimate_snr a =
     (let energy = map (\<lambda>x. x * x) a;
          signal_power = mean energy;
          sorted_energy = sort energy;
          noise_power = mean (take (length sorted_energy div 4) sorted_energy)
      in if noise_power > 0 then max 0 (10 * log 10 (signal_power / noise_power)) else 30)"

text \<open>\<open>max(word_freq.values()) if word_freq else 1\<close>.\<close>

definition max_repetition :: "ustr list \<Rightarrow> nat" where
  "max_repetition ws = (if ws = [] then 1 else fold max (map (count_list ws) ws) 0)"

definition audio_confidence :: "real list \<Rightarrow> real \<Rightarrow> real" where
  "audio_confidence a c =
     (let volume = mean (map abs a);
          c1 = (if volume < 0.01 then c * 0.8 else if volume > 0.5 then c * 0.9 else c)
      in if length a > 1600 then (if estimate_snr a < 10 then c1 * 0.85 else c1) else c1)"

text \<open>\<open>estimate_confidence\<close>; the second argument is \<open>self.current_language\<close>.\<close>

definition estimate_confidence :: "env \<Rightarrow> string \<Rightarrow> ustr \<Rightarrow> real list option \<Rightarrow> real" where
  "estimate_confidence e cur t audio_data =
     (if t = [] \<or> py_strip t = [] then 0
      else
        let ws = py_split (py_strip t);
            c1 = (if length ws < 2 then 1 * 0.7 else if length ws > 50 then 1 * 0.9 else 1);
            unique_chars = length (remdups (str_lower e t));
            c2 = (if unique_chars < 5 \<and> length t > 10 then c1 * 0.6 else c1);
            c3 = (if has_mixed_scripts t
                  then (if cur = ''hi-en'' then c2 * 0.95 else c2 * 0.75) else c2);
            c4 = (if real (max_repetition ws) > real (length ws) * 0.5 then c3 * 0.6 else c3);
            c5 = (case audio_data of
                    None \<Rightarrow> c4
                  | Some a \<Rightarrow> if length a > 0 then audio_confidence a c4 else c4)
        in max 0 (min 1 c5))"

section \<open>The transcription processor\<close>

text \<open>
  The callbacks a processor may have registered, and what it does to the outside: each
  callback invocation, each logged warning, each call into turn detection and each export is
  an event appended to the processor's trace; the text of a warning is given without its
  emoji. Info and debug logging and the \<open>processing_times\<close> bookkeeping are left out. A
  callback is assumed not to raise.
\<close>

datatype callback =
    RealtimeTranscriptionCb | FullTranscriptionCb | LanguageDetectionCb
  | ConfidenceCb | SilenceActiveCb | RecordingStartCb

datatype event =
    Warning string
  | RealtimeTranscription TranscriptionResult
  | FullTranscription TranscriptionResult
  | LanguageDetected string
  | ConfidenceUpdate real
  | SilenceActive bool
  | RecordingStarted
  | TurnDetectionReset
  | TurnDetectionCalculate ustr
  | Exported "TranscriptionResult list"

text \<open>The recorder attributes the processor reads and writes (\<open>START_STT_SERVER = False\<close>).\<close>

record recorder_state =
  language_param :: string
  post_speech_silence_duration :: real
  speech_end_silence_start :: real

record processor =
  source_language :: string
  continuous_mode :: bool
  auto_language_switching :: bool
  pipeline_latency :: real
  callbacks :: "callback list"
  recorder :: "recorder_state option"
  transcription_history :: "TranscriptionResult list"
  current_language :: string
  realtime_text :: "ustr option"
  current_confidence :: real
  silence_time :: real
  silence_active :: bool
  recording_start_time :: "real option"
  last_partial_text :: ustr
  export_path :: bool
  auto_save_counter :: nat
  shutdown_performed :: bool
  trace :: "event list"

definition log_warning :: "string \<Rightarrow> processor \<Rightarrow> processor" where
  "log_warning m s = s\<lparr>trace := trace s @ [Warning m]\<rparr>"

definition emit :: "event \<Rightarrow> processor \<Rightarrow> processor" where
  "emit ev s = s\<lparr>trace := trace s @ [ev]\<rparr>"

text \<open>\<open>if self.<callback>: self.<callback>(...)\<close>.\<close>

definition fire :: "callback \<Rightarrow> event \<Rightarrow> processor \<Rightarrow> processor" where
  "fire cb ev s = (if cb \<in> set (callbacks s) then emit ev s else s)"

text \<open>
  \<open>__init__\<close>, with \<open>_prepare_recorder_config\<close> (no custom configuration) and the outcome
  of \<open>_create_recorder\<close> (\<open>created\<close>: the external recorder could be built). The language is
  stored as given; an unknown one is only warned about.
\<close>

definition init ::
  "env \<Rightarrow> string \<Rightarrow> bool \<Rightarrow> bool \<Rightarrow> bool \<Rightarrow> real \<Rightarrow> callback list \<Rightarrow> bool \<Rightarrow> processor" where
  "init e src cont auto_switching export latency cbs created =
     (let known = map_of (LANGUAGE_MODELS (is_railway e)) src;
          config_language =
            (case known of
               None \<Rightarrow> ''en''
             | Some lang_cfg \<Rightarrow> (case whisper_code lang_cfg of None \<Rightarrow> ''en'' | Some c \<Rightarrow> c));
          config_silence =
            (if cont then 0.5 else if is_railway e then 0.9 else 0.7);
          rec = (if created
                 then Some \<lparr>language_param = config_language,
                            post_speech_silence_duration = config_silence,
                            speech_end_silence_start = 0\<rparr>
                 else None)
      in \<lparr>source_language = src, continuous_mode = cont,
          auto_language_switching = auto_switching, pipeline_latency = latency,
          callbacks = cbs, recorder = rec, transcription_history = [],
          current_language = src, realtime_text = None, current_confidence = 0,
          silence_time = 0, silence_active = False, recording_start_time = None,
          last_partial_text = [], export_path = export, auto_save_counter = 0,
          shutdown_performed = False,
          trace = (if known = None
                   then [Warning (''Unknown language '' @ src @ '', using default config'')]
                   else []) @
                  (if langdetect_available e then []
                   else [Warning ''Language detection disabled'']) \<rparr>)"

text \<open>\<open>switch_language\<close>: the returned flag and the new state.\<close>

definition switch_language :: "env \<Rightarrow> string \<Rightarrow> processor \<Rightarrow> bool \<times> processor" where
  "switch_language e new_language s =
     (case map_of (LANGUAGE_MODELS (is_railway e)) new_language of
        None \<Rightarrow> (False, log_warning (''Unsupported language: '' @ new_language) s)
      | Some lang_cfg \<Rightarrow>
          if new_language = current_language s then (True, s)
          else
            let s1 = (case whisper_code lang_cfg of
                        None \<Rightarrow> s
                      | Some c \<Rightarrow>
                          (case recorder s of
                             None \<Rightarrow> s
                           | Some r \<Rightarrow> s\<lparr>recorder := Some (r\<lparr>language_param := c\<rparr>)\<rparr>));
                s2 = s1\<lparr>current_language := new_language\<rparr>
            in (True, fire LanguageDetectionCb (LanguageDetected new_language) s2))"

text \<open>\<open>_auto_save_if_needed\<close>; the export writes the final results as JSON.\<close>

definition auto_save_if_needed :: "env \<Rightarrow> processor \<Rightarrow> processor" where
  "auto_save_if_needed e s =
     (if \<not> export_path s then s
      else
        let s1 = s\<lparr>auto_save_counter := auto_save_counter s + 1\<rparr>
        in if auto_save_counter s1 \<ge> AUTO_SAVE_INTERVAL e
           then (emit (Exported (filter is_final (transcription_history s1))) s1)
                  \<lparr>auto_save_counter := 0\<rparr>
           else s1)"

text \<open>\<open>time.time() - (self.recording_start_time or time.time())\<close>, one clock reading per call.\<close>

definition elapsed :: "real \<Rightarrow> real option \<Rightarrow> real" where
  "elapsed now started =
     now - (case started of None \<Rightarrow> now | Some t0 \<Rightarrow> if t0 \<noteq> 0 then t0 else now)"

text \<open>\<open>_finalize_current_transcription\<close>: the finalization the silence monitor triggers.\<close>

definition finalize_current_transcription :: "env \<Rightarrow> real \<Rightarrow> processor \<Rightarrow> processor" where
  "finalize_current_transcription e now s =
     (case realtime_text s of
        None \<Rightarrow> s
      | Some t \<Rightarrow>
          if t = [] then s
          else
            let detected_lang = detect_or_current e (current_language s) t;
                has_mixed = has_mixed_scripts t;
                result = new_result t (current_confidence s) now detected_lang True
                           (elapsed now (recording_start_time s)) (length (py_split t)) has_mixed;
                h1 = transcription_history s @ [result];
                h2 = (if length h1 > TRANSCRIPTION_CACHE_SIZE e
                      then py_last_n (TRANSCRIPTION_CACHE_SIZE e) h1 else h1);
                s1 = s\<lparr>transcription_history := h2\<rparr>;
                s2 = fire FullTranscriptionCb (FullTranscription result) s1
            in auto_save_if_needed e s2)"

text \<open>
  One iteration of the loop of the silence monitor (it sleeps 5 ms between iterations); \<open>now\<close>
  is the clock at this poll.
\<close>

definition monitor_poll :: "env \<Rightarrow> real \<Rightarrow> processor \<Rightarrow> processor" where
  "monitor_poll e now s =
     (if shutdown_performed s then s
      else
        let speech_end_silence_start = silence_time s
        in (case recorder s of
              None \<Rightarrow> s
            | Some r \<Rightarrow>
                if speech_end_silence_start \<noteq> 0 then
                  let silence_waiting_time = post_speech_silence_duration r;
                      time_since_silence = now - speech_end_silence_start;
                      finalize_threshold =
                        silence_waiting_time - pipeline_latency s - PIPELINE_RESERVE_TIME_MS e
                  in if time_since_silence > finalize_threshold \<and> truthy (realtime_text s)
                     then finalize_current_transcription e now s
                     else s
                else s))"

text \<open>The language switching of \<open>on_partial\<close> (the block under \<open>auto_language_switching\<close>).\<close>

definition auto_switch :: "env \<Rightarrow> ustr \<Rightarrow> processor \<Rightarrow> processor" where
  "auto_switch e t s =
     (case detect_language e t of
        None \<Rightarrow> s
      | Some detected_lang \<Rightarrow>
          if detected_lang \<noteq> [] \<and> detected_lang \<noteq> current_language s then
            if has_mixed_scripts t \<and> current_language s \<noteq> ''hi-en''
            then snd (switch_language e ''hi-en'' s)
            else if (detected_lang = ''hi'' \<or> detected_lang = ''en'') \<and> \<not> has_mixed_scripts t then
              if current_language s = ''hi-en'' then
                let recent_detections =
                      map (\<lambda>r. detect_language e (result_text r))
                        (filter (\<lambda>r. result_text r \<noteq> []) (py_last_n 3 (transcription_history s)))
                in if count_list recent_detections (Some detected_lang) \<ge> 2
                   then snd (switch_language e detected_lang s)
                   else s
              else snd (switch_language e detected_lang s)
            else s
          else s)"

text \<open>\<open>on_partial\<close>; \<open>audio\<close> is what \<open>get_last_audio_copy()\<close> returns at this moment.\<close>

definition on_partial ::
  "env \<Rightarrow> real \<Rightarrow> real list option \<Rightarrow> ustr option \<Rightarrow> processor \<Rightarrow> processor" where
  "on_partial e now audio txt s =
     (case txt of
        None \<Rightarrow> s
      | Some t \<Rightarrow>
          if t = [] then s
          else
            let s1 = s\<lparr>realtime_text := Some t\<rparr>;
                s2 = s1\<lparr>current_confidence := estimate_confidence e (current_language s1) t audio\<rparr>;
                s3 = (if auto_language_switching s2 then auto_switch e t s2 else s2);
                result = new_result t (current_confidence s3) now (current_language s3) False
                           (elapsed now (recording_start_time s3)) (length (py_split t))
                           (has_mixed_scripts t);
                stripped_text = strip_ending_punctuation e t
            in if is_similar e (last_partial_text s3) stripped_text SIMILARITY_THRESHOLD then s3
               else
                 let s4 = s3\<lparr>last_partial_text := stripped_text\<rparr>;
                     s5 = fire RealtimeTranscriptionCb (RealtimeTranscription result) s4;
                     s6 = fire ConfidenceCb (ConfidenceUpdate (current_confidence s5)) s5
                 in emit (TurnDetectionCalculate t) s6)"

text \<open>\<open>on_final\<close>.\<close>

definition on_final ::
  "env \<Rightarrow> real \<Rightarrow> real list option \<Rightarrow> ustr option \<Rightarrow> processor \<Rightarrow> processor" where
  "on_final e now audio txt s =
     (case txt of
        None \<Rightarrow> log_warning ''Final transcription empty'' s
      | Some t \<Rightarrow>
          if t = [] \<or> py_strip t = [] then log_warning ''Final transcription empty'' s
          else
            let conf = estimate_confidence e (current_language s) t audio;
                final_language = detect_or_current e (current_language s) t;
                result = new_result t conf now final_language True
                           (elapsed now (recording_start_time s)) (length (py_split t))
                           (has_mixed_scripts t);
                h1 = transcription_history s @ [result];
                h2 = (if length h1 > TRANSCRIPTION_CACHE_SIZE e
                      then py_last_n (TRANSCRIPTION_CACHE_SIZE e) h1 else h1);
                s1 = s\<lparr>transcription_history := h2\<rparr>;
                s2 = emit TurnDetectionReset s1;
                s3 = fire FullTranscriptionCb (FullTranscription result) s2
            in auto_save_if_needed e s3)"

text \<open>\<open>force_finalize\<close>.\<close>

definition force_finalize :: "env \<Rightarrow> real \<Rightarrow> real list option \<Rightarrow> processor \<Rightarrow> processor" where
  "force_finalize e now audio s =
     (if recorder s = None \<or> \<not> truthy (realtime_text s)
      then log_warning ''Cannot force finalize: No recorder or no current text'' s
      else
        let t = the (realtime_text s);
            conf = estimate_confidence e (current_language s) t audio;
            detected_lang = detect_or_current e (current_language s) t;
            result = new_result t conf now detected_lang True
                       (elapsed now (recording_start_time s)) (length (py_split t))
                       (has_mixed_scripts t);
            s1 = s\<lparr>transcription_history := transcription_history s @ [result]\<rparr>;
            s2 = emit TurnDetectionReset s1;
            s3 = fire FullTranscriptionCb (FullTranscription result) s2
        in auto_save_if_needed e s3)"

text \<open>\<open>clear_history\<close>.\<close>

definition clear_history :: "int \<Rightarrow> processor \<Rightarrow> processor" where
  "clear_history keep_recent s =
     (if keep_recent > 0
      then s\<lparr>transcription_history := py_last_n (nat keep_recent) (transcription_history s),
             auto_save_counter := 0\<rparr>
      else s\<lparr>transcription_history := [], auto_save_counter := 0\<rparr>)"

text \<open>\<open>set_silence\<close> and the recorder callbacks built in \<open>_create_recorder\<close>.\<close>

definition set_silence :: "bool \<Rightarrow> processor \<Rightarrow> processor" where
  "set_silence b s =
     (if silence_active s \<noteq> b
      then fire SilenceActiveCb (SilenceActive b) (s\<lparr>silence_active := b\<rparr>)
      else s)"

definition start_silence_detection :: "real \<Rightarrow> processor \<Rightarrow> processor" where
  "start_silence_detection now s =
     (let s1 = set_silence True s;
          recorder_silence_start =
            (case recorder s1 of None \<Rightarrow> 0 | Some r \<Rightarrow> speech_end_silence_start r)
      in s1\<lparr>silence_time := (if recorder_silence_start \<noteq> 0 then recorder_silence_start else now)\<rparr>)"

definition stop_silence_detection :: "processor \<Rightarrow> processor" where
  "stop_silence_detection s = (set_silence False s)\<lparr>silence_time := 0\<rparr>"

definition start_recording :: "real \<Rightarrow> processor \<Rightarrow> processor" where
  "start_recording now s =
     (let s1 = s\<lparr>recording_start_time := Some now\<rparr>;
          s2 = set_silence False s1;
          s3 = s2\<lparr>silence_time := 0, last_partial_text := []\<rparr>
      in fire RecordingStartCb RecordingStarted s3)"

text \<open>\<open>stop_recording\<close> (it always returns \<open>False\<close>; only its effect on the state is kept).\<close>

definition stop_recording :: "env \<Rightarrow> real list option \<Rightarrow> processor \<Rightarrow> processor" where
  "stop_recording e audio s =
     (if truthy (realtime_text s)
      then s\<lparr>current_confidence :=
               estimate_confidence e (current_language s) (the (realtime_text s)) audio\<rparr>
      else s)"

definition on_new_waiting_time :: "real \<Rightarrow> processor \<Rightarrow> processor" where
  "on_new_waiting_time waiting_time s =
     (case recorder s of
        None \<Rightarrow> s
      | Some r \<Rightarrow>
          if post_speech_silence_duration r \<noteq> waiting_time
          then s\<lparr>recorder := Some (r\<lparr>post_speech_silence_duration := waiting_time\<rparr>)\<rparr>
          else s)"

text \<open>
  An exception that an operation lets escape to its caller, with the state the operation
  leaves behind.
\<close>

datatype py_error = KeyError string

text \<open>
  The keys of the dictionary that \<open>get_statistics\<close> returns: with an empty history it
  returns early with a shorter dictionary, which has no \<open>total_processed_audio\<close>.
\<close>

definition get_statistics_keys :: "processor \<Rightarrow> string list" where
  "get_statistics_keys s =
     (if length (transcription_history s) = 0
      then [''total_transcriptions'', ''final_transcriptions'', ''average_confidence'',
            ''language_distribution'', ''total_duration'', ''average_processing_time'',
            ''performance_metrics'']
      else [''total_transcriptions'', ''final_transcriptions'', ''average_confidence'',
            ''language_distribution'', ''mixed_language_transcriptions'', ''total_duration'',
            ''total_processed_audio'', ''average_processing_time'', ''current_language'',
            ''auto_language_switching'', ''continuous_mode'', ''performance_metrics''])"

text \<open>
  \<open>shutdown\<close>. After setting \<open>shutdown_performed\<close> it logs five entries of the statistics,
  in the order below; the first key that is missing raises \<open>KeyError\<close>, before the final
  export and before the recorder is released. Otherwise it exports (if a path is set and the
  history is not empty) and drops the recorder.
\<close>

definition shutdown :: "processor \<Rightarrow> py_error option \<times> processor" where
  "shutdown s =
     (if shutdown_performed s then (None, s)
      else
        let s1 = s\<lparr>shutdown_performed := True\<rparr>;
            stats = get_statistics_keys s1
        in (case find (\<lambda>k. k \<notin> set stats)
                   [''total_transcriptions'', ''final_transcriptions'', ''average_confidence'',
                    ''total_processed_audio'', ''language_distribution''] of
              Some k \<Rightarrow> (Some (KeyError k), s1)
            | None \<Rightarrow>
                let s2 = (if export_path s1 \<and> transcription_history s1 \<noteq> []
                          then emit (Exported (filter is_final (transcription_history s1))) s1
                          else s1)
                in (None, s2\<lparr>recorder := None\<rparr>)))"

text \<open>
  The operations of a session, each with the clock reading at which it runs, and a run of
  them in order. An exception of \<open>shutdown\<close> goes to its caller; the processor stays as
  \<open>shutdown\<close> left it, and the run goes on with that state.
\<close>

datatype action =
    SwitchLanguage string
  | OnPartial "real list option" "ustr option"
  | OnFinal "real list option" "ustr option"
  | MonitorPoll
  | ForceFinalize "real list option"
  | ClearHistory int
  | StartSilenceDetection
  | StopSilenceDetection
  | StartRecording
  | StopRecording "real list option"
  | NewWaitingTime real
  | Shutdown

fun step :: "env \<Rightarrow> real \<times> action \<Rightarrow> processor \<Rightarrow> processor" where
  "step e (now, SwitchLanguage l) s = snd (switch_language e l s)"
| "step e (now, OnPartial audio txt) s = on_partial e now audio txt s"
| "step e (now, OnFinal audio txt) s = on_final e now audio txt s"
| "step e (now, MonitorPoll) s = monitor_poll e now s"
| "step e (now, ForceFinalize audio) s = force_finalize e now audio s"
| "step e (now, ClearHistory k) s = clear_history k s"
| "step e (now, StartSilenceDetection) s = start_silence_detection now s"
| "step e (now, StopSilenceDetection) s = stop_silence_detection s"
| "step e (now, StartRecording) s = start_recording now s"
| "step e (now, StopRecording audio) s = stop_recording e audio s"
| "step e (now, NewWaitingTime w) s = on_new_waiting_time w s"
| "step e (now, Shutdown) s = snd (shutdown s)"

fun run :: "env \<Rightarrow> (real \<times> action) list \<Rightarrow> processor \<Rightarrow> processor" where
  "run e [] s = s"
| "run e (a # as) s = run e as (step e a s)"

section \<open>The server: framed audio channel and backpressure queue\<close>

type_synonym byte = "8 word"

text \<open>ASCII text inside a Python string.\<close>

definition ascii :: "string \<Rightarrow> ustr" where
  "ascii cs = map of_char cs"

text \<open>
  \<open>struct.unpack("!I", b)\<close> on four bytes and \<open>struct.pack("!I", n)\<close>: big-endian, the
  result of unpacking is an unbounded Python integer below \<open>2 ^ 32\<close>; packing raises
  \<open>struct.error\<close> outside that range.
\<close>

definition unpack_u32_be :: "byte list \<Rightarrow> nat" where
  "unpack_u32_be bs = foldl (\<lambda>acc b. acc * 256 + unat b) 0 bs"

definition pack_u32_be :: "nat \<Rightarrow> byte list option" where
  "pack_u32_be n =
     (if n < 2 ^ 32
      then Some [of_nat (n div 2 ^ 24), of_nat (n div 2 ^ 16), of_nat (n div 2 ^ 8), of_nat n]
      else None)"

text \<open>
  The message the test client's \<open>send_audio_chunk\<close> sends:
  \<open>struct.pack("!II", timestamp_ms, flags) + audio_data\<close>.
\<close>

definition send_audio_chunk :: "byte list \<Rightarrow> nat \<Rightarrow> nat \<Rightarrow> byte list option" where
  "send_audio_chunk audio_data timestamp_ms flags =
     (case (pack_u32_be timestamp_ms, pack_u32_be flags) of
        (Some a, Some b) \<Rightarrow> Some (a @ b @ audio_data)
      | _ \<Rightarrow> None)"

text \<open>
  \<open>format_timestamp_ns\<close>; \<open>local_hms\<close> is \<open>datetime.fromtimestamp(seconds).strftime("%H:%M:%S")\<close>,
  which depends on the host's time zone.
\<close>

definition digit :: "nat \<Rightarrow> nat" where
  "digit d = 48 + d mod 10"

definition format_timestamp_ns :: "(int \<Rightarrow> ustr) \<Rightarrow> int \<Rightarrow> ustr" where
  "format_timestamp_ns local_hms timestamp_ns =
     (let seconds = timestamp_ns div 1000000000;
          remainder_ns = timestamp_ns mod 1000000000;
          time_str = local_hms seconds;
          milliseconds = nat (remainder_ns div 1000000)
      in time_str @ ascii ''.'' @
         [digit (milliseconds div 100), digit (milliseconds div 10), digit milliseconds])"

record metadata =
  client_sent_ms :: nat
  client_sent :: nat
  client_sent_formatted :: ustr
  isTTSPlaying :: bool
  server_received :: nat
  server_received_formatted :: ustr
  pcm :: "byte list"

datatype server_warning =
    PacketTooShort
  | AudioQueueFull nat int

text \<open>
  What one binary message does before the queue is looked at: an empty payload fails the
  test \<open>msg["bytes"]\<close> and nothing happens; a payload under 8 bytes is logged and skipped;
  otherwise the header is unpacked. \<open>server_ns\<close> is \<open>time.time_ns()\<close>.
\<close>

datatype parsed = Skipped | Rejected server_warning | Frame metadata

definition parse_binary :: "(int \<Rightarrow> ustr) \<Rightarrow> nat \<Rightarrow> byte list \<Rightarrow> parsed" where
  "parse_binary local_hms server_ns raw =
     (if raw = [] then Skipped
      else if length raw < 8 then Rejected PacketTooShort
      else
        let timestamp_ms = unpack_u32_be (take 4 raw);
            flags = unpack_u32_be (take 4 (drop 4 raw));
            client_sent_ns = timestamp_ms * 1000000
        in Frame \<lparr>client_sent_ms = timestamp_ms,
                  client_sent = client_sent_ns,
                  client_sent_formatted = format_timestamp_ns local_hms (int client_sent_ns),
                  isTTSPlaying = (flags AND 1 \<noteq> 0),
                  server_received = server_ns,
                  server_received_formatted = format_timestamp_ns local_hms (int server_ns),
                  pcm = drop 8 raw\<rparr>)"

text \<open>
  The connection as \<open>process_incoming_data\<close> sees it: the queue \<open>incoming_chunks\<close> (an
  unbounded \<open>asyncio.Queue\<close>, so \<open>put\<close> returns at once) and the warnings logged.
\<close>

record connection =
  incoming_chunks :: "metadata list"
  warnings :: "server_warning list"

text \<open>The queue-size check; \<open>MAX_AUDIO_QUEUE_SIZE\<close> is an integer read from the environment.\<close>

definition enqueue :: "int \<Rightarrow> metadata \<Rightarrow> connection \<Rightarrow> connection" where
  "enqueue MAX_AUDIO_QUEUE_SIZE m c =
     (let current_qsize = length (incoming_chunks c)
      in if int current_qsize < MAX_AUDIO_QUEUE_SIZE
         then c\<lparr>incoming_chunks := incoming_chunks c @ [m]\<rparr>
         else c\<lparr>warnings := warnings c @ [AudioQueueFull current_qsize MAX_AUDIO_QUEUE_SIZE]\<rparr>)"

fun enqueue_all :: "int \<Rightarrow> metadata list \<Rightarrow> connection \<Rightarrow> connection" where
  "enqueue_all cap [] c = c"
| "enqueue_all cap (m # ms) c = enqueue_all cap ms (enqueue cap m c)"

text \<open>One iteration of the receive loop on a binary message.\<close>

definition process_binary_message ::
  "(int \<Rightarrow> ustr) \<Rightarrow> int \<Rightarrow> nat \<Rightarrow> byte list \<Rightarrow> connection \<Rightarrow> connection" where
  "process_binary_message local_hms cap server_ns raw c =
     (case parse_binary local_hms server_ns raw of
        Skipped \<Rightarrow> c
      | Rejected w \<Rightarrow> c\<lparr>warnings := warnings c @ [w]\<rparr>
      | Frame m \<Rightarrow> enqueue cap m c)"

section \<open>The server: transcription history and its text export\<close>

record history_entry =
  entry_text :: ustr
  entry_language :: ustr
  entry_timestamp :: real
  formatted_time :: ustr
  entry_is_final :: bool
  session_start :: ustr

datatype message =
    PartialTranscription ustr ustr real
  | FinalTranscription ustr ustr real

text \<open>
  \<open>TranscriptionHistory\<close> with the state of \<open>TranscriptionCallbacks\<close> that its callbacks use.
  \<open>session_start_iso\<close> and \<open>session_start_text\<close> are \<open>current_session_start\<close> rendered by
  \<open>isoformat()\<close> and by \<open>strftime('%Y-%m-%d %H:%M:%S')\<close>.
\<close>

record server_state =
  transcriptions :: "history_entry list"
  session_start_iso :: ustr
  session_start_text :: ustr
  app_current_language :: ustr
  partial_transcription :: ustr
  final_transcription :: ustr
  cb_last_partial_text :: ustr
  last_transcription_time :: real
  message_queue :: "message list"

text \<open>\<open>int(x)\<close> on a float: truncation towards zero.\<close>

definition py_int :: "real \<Rightarrow> int" where
  "py_int x = (if x \<ge> 0 then \<lfloor>x\<rfloor> else \<lceil>x\<rceil>)"

definition add_transcription ::
  "(int \<Rightarrow> ustr) \<Rightarrow> ustr \<Rightarrow> ustr \<Rightarrow> real \<Rightarrow> bool \<Rightarrow> server_state \<Rightarrow> server_state" where
  "add_transcription local_hms t l ts fin s =
     (let entry = \<lparr>entry_text = t, entry_language = l, entry_timestamp = ts,
                   formatted_time = format_timestamp_ns local_hms (py_int (ts * 1000000000)),
                   entry_is_final = fin, session_start = session_start_iso s\<rparr>
      in s\<lparr>transcriptions := transcriptions s @ [entry]\<rparr>)"

text \<open>\<open>sep.join(lines)\<close>.\<close>

fun py_join :: "ustr \<Rightarrow> ustr list \<Rightarrow> ustr" where
  "py_join sep [] = []"
| "py_join sep [x] = x"
| "py_join sep (x # y # ys) = x @ sep @ py_join sep (y # ys)"

definition entry_line :: "history_entry \<Rightarrow> ustr" where
  "entry_line entry =
     ascii ''['' @ formatted_time entry @ ascii ''] ('' @ entry_language entry @ ascii '') '' @
     entry_text entry"

text \<open>The list \<open>lines\<close> that \<open>export_to_text\<close> builds, and the string it returns.\<close>

definition export_lines :: "server_state \<Rightarrow> ustr list" where
  "export_lines s =
     (ascii ''Transcription Session - '' @ session_start_text s @ [10]) #
     map entry_line (filter entry_is_final (transcriptions s))"

definition export_to_text :: "server_state \<Rightarrow> ustr" where
  "export_to_text s = py_join [10] (export_lines s)"

text \<open>\<open>TranscriptionCallbacks.on_partial\<close> and \<open>on_final\<close>; \<open>now\<close> is \<open>time.time()\<close>.\<close>

definition srv_on_partial :: "(int \<Rightarrow> ustr) \<Rightarrow> real \<Rightarrow> ustr \<Rightarrow> server_state \<Rightarrow> server_state" where
  "srv_on_partial local_hms now txt s =
     (if txt \<noteq> [] \<and> txt \<noteq> cb_last_partial_text s then
        let s1 = s\<lparr>partial_transcription := txt, cb_last_partial_text := txt,
                   last_transcription_time := now\<rparr>;
            s2 = add_transcription local_hms txt (app_current_language s1)
                   (last_transcription_time s1) False s1
        in s2\<lparr>message_queue := message_queue s2 @
                 [PartialTranscription txt (app_current_language s2) (last_transcription_time s2)]\<rparr>
      else s)"

definition srv_on_final :: "(int \<Rightarrow> ustr) \<Rightarrow> real \<Rightarrow> ustr \<Rightarrow> server_state \<Rightarrow> server_state" where
  "srv_on_final local_hms now txt s =
     (if txt \<noteq> [] \<and> py_strip txt \<noteq> [] then
        let s1 = s\<lparr>final_transcription := txt, last_transcription_time := now\<rparr>;
            s2 = add_transcription local_hms txt (app_current_language s1)
                   (last_transcription_time s1) True s1
        in s2\<lparr>message_queue := message_queue s2 @
                 [FinalTranscription txt (app_current_language s2) (last_transcription_time s2)]\<rparr>
      else s)"

section \<open>Sample collaborators and sample sessions\<close>

text \<open>
  Concrete collaborators: a detector that answers \<open>hi\<close> when the text has a Devanagari code
  point and \<open>en\<close> otherwise, ASCII lower-casing, no punctuation stripping, and equality as the
  similarity test.
\<close>

definition ascii_lower :: "ustr \<Rightarrow> ustr" where
  "ascii_lower t = map (\<lambda>c. if 65 \<le> c \<and> c \<le> 90 then c + 32 else c) t"

definition sample_env :: env where
  "sample_env =
     \<lparr>is_railway = False, langdetect_available = True,
      langdetect_detect = (\<lambda>t. if list_ex is_devanagari t then Some ''hi'' else Some ''en''),
      str_lower = ascii_lower, strip_ending_punctuation = (\<lambda>t. t),
      is_similar = (\<lambda>a b threshold. a = b)\<rparr>"

definition sample_processor :: processor where
  "sample_processor =
     init sample_env ''en'' True True False 0.3 [RealtimeTranscriptionCb, FullTranscriptionCb] True"

text \<open>The text \<open>one two three\<close>.\<close>

definition three_words :: ustr where
  "three_words = [111, 110, 101, 32, 116, 119, 111, 32, 116, 104, 114, 101, 101]"

text \<open>The result that \<open>on_final\<close> and \<open>force_finalize\<close> build for the text \<open>t\<close>.\<close>

definition final_result ::
  "env \<Rightarrow> real \<Rightarrow> real list option \<Rightarrow> ustr \<Rightarrow> processor \<Rightarrow> TranscriptionResult" where
  "final_result e now audio t s =
     new_result t (estimate_confidence e (current_language s) t audio) now
       (detect_or_current e (current_language s) t) True
       (elapsed now (recording_start_time s)) (length (py_split t)) (has_mixed_scripts t)"

text \<open>The result that \<open>_finalize_current_transcription\<close> builds for the partial text \<open>t\<close>.\<close>

definition silence_result :: "env \<Rightarrow> real \<Rightarrow> ustr \<Rightarrow> processor \<Rightarrow> TranscriptionResult" where
  "silence_result e now t s =
     new_result t (current_confidence s) now
       (detect_or_current e (current_language s) t) True
       (elapsed now (recording_start_time s)) (length (py_split t)) (has_mixed_scripts t)"

text \<open>A session whose history has been filled to capacity by final events.\<close>

definition full_session :: processor where
  "full_session =
     run sample_env (replicate 1000 (1, OnFinal None (Some three_words))) sample_processor"

text \<open>The text \<open>yah ek hai\<close> in Devanagari: three words.\<close>

definition hindi_words :: ustr where
  "hindi_words = [2351, 2361, 32, 2319, 2325, 32, 2361, 2376]"

text \<open>
  The count that \<open>on_partial\<close> compares with 2 before it leaves the code-switching mode: how
  many of the last three history results have a text that \<open>detect_language\<close> maps to \<open>d\<close>.
\<close>

definition recent_agreement :: "env \<Rightarrow> string \<Rightarrow> processor \<Rightarrow> nat" where
  "recent_agreement e d s =
     count_list
       (map (\<lambda>r. detect_language e (result_text r))
          (filter (\<lambda>r. result_text r \<noteq> []) (py_last_n 3 (transcription_history s))))
       (Some d)"

text \<open>A session started in the code-switching mode.\<close>

definition mixed_session :: processor where
  "mixed_session =
     init sample_env ''hi-en'' True True False 0.3 [RealtimeTranscriptionCb, FullTranscriptionCb] True"

text \<open>The code-switching session after finals in English and Hindi, and after one more in English.\<close>

definition after_en_hi :: processor where
  "after_en_hi =
     run sample_env
       [(1, OnFinal None (Some three_words)), (2, OnFinal None (Some hindi_words))] mixed_session"

definition after_en_hi_en :: processor where
  "after_en_hi_en = run sample_env [(3, OnFinal None (Some three_words))] after_en_hi"

text \<open>
  The partials \<open>hel\<close>, \<open>hello\<close>, \<open>hello wor\<close>, and the session that has received them and then
  the start of a silence at time 100.
\<close>

definition hello_wor :: ustr where
  "hello_wor = [104, 101, 108, 108, 111, 32, 119, 111, 114]"

definition watching :: processor where
  "watching =
     run sample_env
       [(99, StartRecording),
        (99.1, OnPartial None (Some (take 3 hello_wor))),
        (99.2, OnPartial None (Some (take 5 hello_wor))),
        (99.3, OnPartial None (Some hello_wor)),
        (100, StartSilenceDetection)]
       sample_processor"

text \<open>
  A sample connection: a fixed rendering of the local time, an empty queue, and audio messages
  whose header carries the timestamp \<open>k\<close> and no flags.
\<close>

definition sample_hms :: "int \<Rightarrow> ustr" where
  "sample_hms seconds = ascii ''00:00:00''"

definition empty_connection :: connection where
  "empty_connection = \<lparr>incoming_chunks = [], warnings = []\<rparr>"

definition audio_message :: "byte \<Rightarrow> byte list" where
  "audio_message k = [0, 0, 0, k, 0, 0, 0, 0, 1, 2]"

text \<open>The receive loop over several binary messages, all received at the same clock reading.\<close>

fun receive_all ::
  "(int \<Rightarrow> ustr) \<Rightarrow> int \<Rightarrow> nat \<Rightarrow> byte list list \<Rightarrow> connection \<Rightarrow> connection" where
  "receive_all local_hms cap server_ns [] c = c"
| "receive_all local_hms cap server_ns (raw # raws) c =
     receive_all local_hms cap server_ns raws (process_binary_message local_hms cap server_ns raw c)"

text \<open>The queue item built from \<open>audio_message k\<close> received at clock reading 7.\<close>

definition sample_frame :: "nat \<Rightarrow> metadata" where
  "sample_frame k =
     \<lparr>client_sent_ms = k, client_sent = k * 1000000,
      client_sent_formatted = format_timestamp_ns sample_hms (int (k * 1000000)),
      isTTSPlaying = False, server_received = 7,
      server_received_formatted = format_timestamp_ns sample_hms 7, pcm = [1, 2]\<rparr>"

text \<open>Whether an operation is \<open>force_finalize\<close>.\<close>

fun is_force_finalize :: "action \<Rightarrow> bool" where
  "is_force_finalize (ForceFinalize audio) = True"
| "is_force_finalize other = False"

section \<open>Frame lemmas of the processor\<close>


lemma log_warning_frame [simp]:
  "transcription_history (log_warning m s) = transcription_history s"
  "current_language (log_warning m s) = current_language s"
  "recorder (log_warning m s) = recorder s"
  "realtime_text (log_warning m s) = realtime_text s"
  "silence_time (log_warning m s) = silence_time s"
  "recording_start_time (log_warning m s) = recording_start_time s"
  "trace (log_warning m s) = trace s @ [Warning m]"
  "callbacks (log_warning m s) = callbacks s"
  "export_path (log_warning m s) = export_path s"
  by (simp_all add: log_warning_def)

lemma emit_frame [simp]:
  "transcription_history (emit ev s) = transcription_history s"
  "current_language (emit ev s) = current_language s"
  "recorder (emit ev s) = recorder s"
  "realtime_text (emit ev s) = realtime_text s"
  "silence_time (emit ev s) = silence_time s"
  "recording_start_time (emit ev s) = recording_start_time s"
  "export_path (emit ev s) = export_path s"
  "auto_save_counter (emit ev s) = auto_save_counter s"
  "callbacks (emit ev s) = callbacks s"
  "trace (emit ev s) = trace s @ [ev]"
  by (simp_all add: emit_def)

lemma fire_frame [simp]:
  "transcription_history (fire cb ev s) = transcription_history s"
  "current_language (fire cb ev s) = current_language s"
  "recorder (fire cb ev s) = recorder s"
  "realtime_text (fire cb ev s) = realtime_text s"
  "silence_time (fire cb ev s) = silence_time s"
  "recording_start_time (fire cb ev s) = recording_start_time s"
  "export_path (fire cb ev s) = export_path s"
  "auto_save_counter (fire cb ev s) = auto_save_counter s"
  "callbacks (fire cb ev s) = callbacks s"
  by (simp_all add: fire_def)

lemma auto_save_frame [simp]:
  "transcription_history (auto_save_if_needed e s) = transcription_history s"
  "current_language (auto_save_if_needed e s) = current_language s"
  "recorder (auto_save_if_needed e s) = recorder s"
  "realtime_text (auto_save_if_needed e s) = realtime_text s"
  "silence_time (auto_save_if_needed e s) = silence_time s"
  "recording_start_time (auto_save_if_needed e s) = recording_start_time s"
  by (simp_all add: auto_save_if_needed_def Let_def)

lemma switch_language_frame [simp]:
  "transcription_history (snd (switch_language e l s)) = transcription_history s"
  "realtime_text (snd (switch_language e l s)) = realtime_text s"
  "silence_time (snd (switch_language e l s)) = silence_time s"
  "recording_start_time (snd (switch_language e l s)) = recording_start_time s"
  "(recorder (snd (switch_language e l s)) = None) = (recorder s = None)"
  "callbacks (snd (switch_language e l s)) = callbacks s"
  "export_path (snd (switch_language e l s)) = export_path s"
  by (simp_all add: switch_language_def Let_def split: option.splits)

lemma auto_switch_frame [simp]:
  "transcription_history (auto_switch e t s) = transcription_history s"
  "realtime_text (auto_switch e t s) = realtime_text s"
  "silence_time (auto_switch e t s) = silence_time s"
  "recording_start_time (auto_switch e t s) = recording_start_time s"
  "(recorder (auto_switch e t s) = None) = (recorder s = None)"
  "callbacks (auto_switch e t s) = callbacks s"
  "export_path (auto_switch e t s) = export_path s"
  by (simp_all add: auto_switch_def Let_def split: option.splits)

lemma on_partial_frame:
  "transcription_history (on_partial e now a txt s) = transcription_history s"
  "(recorder (on_partial e now a txt s) = None) = (recorder s = None)"
  "silence_time (on_partial e now a txt s) = silence_time s"
  "realtime_text (on_partial e now a txt s) = (if truthy txt then txt else realtime_text s)"
  "callbacks (on_partial e now a txt s) = callbacks s"
  "export_path (on_partial e now a txt s) = export_path s"
  by (simp_all add: on_partial_def Let_def split: option.splits)

lemma on_final_history:
  "t \<noteq> [] \<Longrightarrow> py_strip t \<noteq> [] \<Longrightarrow>
   transcription_history (on_final e now a (Some t) s) =
     (if length (transcription_history s) + 1 > TRANSCRIPTION_CACHE_SIZE e
      then py_last_n (TRANSCRIPTION_CACHE_SIZE e) (transcription_history s @ [final_result e now a t s])
      else transcription_history s @ [final_result e now a t s])"
  by (simp add: on_final_def Let_def final_result_def)

lemma finalize_history:
  "realtime_text s = Some t \<Longrightarrow> t \<noteq> [] \<Longrightarrow>
   transcription_history (finalize_current_transcription e now s) =
     (if length (transcription_history s) + 1 > TRANSCRIPTION_CACHE_SIZE e
      then py_last_n (TRANSCRIPTION_CACHE_SIZE e) (transcription_history s @ [silence_result e now t s])
      else transcription_history s @ [silence_result e now t s])"
  by (simp add: finalize_current_transcription_def Let_def silence_result_def)

lemma force_finalize_history:
  "recorder s \<noteq> None \<Longrightarrow> realtime_text s = Some t \<Longrightarrow> t \<noteq> [] \<Longrightarrow>
   transcription_history (force_finalize e now a s) =
     transcription_history s @ [final_result e now a t s]"
  by (simp add: force_finalize_def Let_def final_result_def)


lemma on_final_frame [simp]:
  "recorder (on_final e now a txt s) = recorder s"
  "realtime_text (on_final e now a txt s) = realtime_text s"
  "current_language (on_final e now a txt s) = current_language s"
  "silence_time (on_final e now a txt s) = silence_time s"
  by (simp_all add: on_final_def Let_def split: option.splits)

lemma cache_size_pos [simp]: "0 < TRANSCRIPTION_CACHE_SIZE e"
  by (simp add: TRANSCRIPTION_CACHE_SIZE_def)

lemma cache_size_nonzero [simp]: "TRANSCRIPTION_CACHE_SIZE e \<noteq> 0"
  by (simp add: TRANSCRIPTION_CACHE_SIZE_def)

lemma length_py_last_n: "0 < n \<Longrightarrow> length (py_last_n n xs) = min n (length xs)"
  by (simp add: py_last_n_def)

lemma on_final_length:
  "t \<noteq> [] \<Longrightarrow> py_strip t \<noteq> [] \<Longrightarrow>
   length (transcription_history (on_final e now a (Some t) s)) =
     min (TRANSCRIPTION_CACHE_SIZE e) (length (transcription_history s) + 1)"
  by (simp add: on_final_history length_py_last_n)

lemma run_append: "run e (xs @ ys) s = run e ys (run e xs s)"
  by (induction xs arbitrary: s) simp_all

lemma run_finals:
  assumes "t \<noteq> []" "py_strip t \<noteq> []"
  shows "recorder (run e (replicate n (now, OnFinal a (Some t))) s) = recorder s \<and>
         length (transcription_history (run e (replicate n (now, OnFinal a (Some t))) s)) =
           (if n = 0 then length (transcription_history s)
            else min (TRANSCRIPTION_CACHE_SIZE e) (length (transcription_history s) + n))"
proof (induction n arbitrary: s)
  case 0
  then show ?case by simp
next
  case (Suc n)
  show ?case
    using Suc.IH [of "on_final e now a (Some t) s"] assms
    by (auto simp: on_final_length min_def)
qed

lemma three_words_ok [simp]: "three_words \<noteq> []" "py_strip three_words \<noteq> []"
  by (simp_all add: three_words_def py_strip_def py_isspace_def)

lemma sample_processor_fields [simp]:
  "transcription_history sample_processor = []"
  "recorder sample_processor \<noteq> None"
  "current_language sample_processor = ''en''"
  by (simp_all add: sample_processor_def init_def Let_def sample_env_def LANGUAGE_MODELS_def)

lemma sample_cache [simp]: "TRANSCRIPTION_CACHE_SIZE sample_env = 1000"
  by (simp add: TRANSCRIPTION_CACHE_SIZE_def sample_env_def)

lemma full_session_fields [simp]:
  "length (transcription_history full_session) = 1000"
  "recorder full_session \<noteq> None"
  using run_finals [of three_words sample_env 1000 1 None sample_processor]
  by (simp_all add: full_session_def)

text \<open>
  C1: the history is meant never to exceed \<open>_TRANSCRIPTION_CACHE_SIZE\<close>. \<open>on_final\<close> and the
  silence-triggered finalization trim after appending; \<open>force_finalize\<close> appends without
  trimming. Here a session filled to capacity by 1000 final events receives one partial and is
  force-finalized: the history then holds 1001 entries, one more than the capacity of 1000.
\<close>

theorem force_finalize_exceeds_capacity:
  "length (transcription_history
     (force_finalize sample_env 3 None
        (on_partial sample_env 2 None (Some three_words) full_session))) = 1001 \<and>
   TRANSCRIPTION_CACHE_SIZE sample_env = 1000"
proof -
  let ?s = "on_partial sample_env 2 None (Some three_words) full_session"
  have "recorder ?s \<noteq> None" "realtime_text ?s = Some three_words"
    "length (transcription_history ?s) = 1000"
    by (simp_all add: on_partial_frame)
  then show ?thesis
    by (simp add: force_finalize_history)
qed

text \<open>
  C7, as the code has it: when appending a finalized result makes the history longer than the
  capacity, \<open>on_final\<close> and the silence-triggered finalization keep the newest
  \<open>capacity\<close> entries in insertion order: exactly the entries in excess of the capacity are
  dropped from the front (one entry when the history was full), not half of the history.
\<close>

theorem eviction_drops_only_the_excess:
  assumes "t \<noteq> []"
    and "TRANSCRIPTION_CACHE_SIZE e < length (transcription_history s) + 1"
  shows "(py_strip t \<noteq> [] \<longrightarrow>
            transcription_history (on_final e now a (Some t) s) =
              drop (length (transcription_history s) + 1 - TRANSCRIPTION_CACHE_SIZE e)
                (transcription_history s @ [final_result e now a t s])) \<and>
         (realtime_text s = Some t \<longrightarrow>
            transcription_history (finalize_current_transcription e now s) =
              drop (length (transcription_history s) + 1 - TRANSCRIPTION_CACHE_SIZE e)
                (transcription_history s @ [silence_result e now t s]))"
  using assms by (simp add: on_final_history finalize_history py_last_n_def)

theorem eviction_drops_only_the_excess_witness:
  "three_words \<noteq> [] \<and>
   TRANSCRIPTION_CACHE_SIZE sample_env <
     length (transcription_history (on_partial sample_env 2 None (Some three_words) full_session)) + 1 \<and>
   py_strip three_words \<noteq> [] \<and>
   realtime_text (on_partial sample_env 2 None (Some three_words) full_session) = Some three_words \<and>
   transcription_history
     (on_final sample_env 3 None (Some three_words)
        (on_partial sample_env 2 None (Some three_words) full_session)) =
     drop 1 (transcription_history full_session @
       [final_result sample_env 3 None three_words
          (on_partial sample_env 2 None (Some three_words) full_session)]) \<and>
   transcription_history
     (finalize_current_transcription sample_env 3
        (on_partial sample_env 2 None (Some three_words) full_session)) =
     drop 1 (transcription_history full_session @
       [silence_result sample_env 3 three_words
          (on_partial sample_env 2 None (Some three_words) full_session)])"
  using eviction_drops_only_the_excess
    [of three_words sample_env "on_partial sample_env 2 None (Some three_words) full_session" 3 None]
  by (simp add: on_partial_frame)

text \<open>
  C7 as stated fails: a final event on a history of 1000 entries (the capacity) leaves 1000
  entries, and the 999 newest of the old entries are all still there.
\<close>

theorem half_eviction_counterexample:
  "length (transcription_history (on_final sample_env 2 None (Some three_words) full_session)) = 1000 \<and>
   butlast (transcription_history (on_final sample_env 2 None (Some three_words) full_session)) =
     tl (transcription_history full_session)"
proof -
  have "transcription_history full_session \<noteq> []"
    using full_session_fields(1) by fastforce
  then show ?thesis
    by (simp add: on_final_history py_last_n_def drop_Suc butlast_append)
qed


section \<open>Confidence bounds\<close>

lemma estimate_confidence_clamped:
  "\<exists>x. estimate_confidence e cur t a = max 0 (min 1 x)"
proof (cases "t = [] \<or> py_strip t = []")
  case True
  then have "estimate_confidence e cur t a = max 0 (min 1 0)"
    by (simp add: estimate_confidence_def)
  then show ?thesis by blast
next
  case False
  then show ?thesis
    unfolding estimate_confidence_def Let_def by (simp only: if_False) blast
qed

text \<open>
  C6: for every text and every optional audio-sample array, \<open>estimate_confidence\<close> returns a
  value in the closed interval [0,1], and on the empty text it returns exactly 0.
\<close>

theorem estimate_confidence_bounds:
  "0 \<le> estimate_confidence e cur t a \<and> estimate_confidence e cur t a \<le> 1 \<and>
   estimate_confidence e cur [] a = 0"
proof -
  obtain x where x: "estimate_confidence e cur t a = max 0 (min 1 x)"
    using estimate_confidence_clamped by blast
  have "estimate_confidence e cur [] a = 0"
    by (simp add: estimate_confidence_def)
  with x show ?thesis by simp
qed

section \<open>Language registry invariant and empty final text\<close>


lemma in_registry_iff: "in_registry r l = (l = ''en'' \<or> l = ''hi'' \<or> l = ''hi-en'')"
  by (simp add: in_registry_def LANGUAGE_MODELS_def)

lemma switch_language_result:
  "fst (switch_language e l s) = in_registry (is_railway e) l"
  "current_language (snd (switch_language e l s)) =
     (if in_registry (is_railway e) l then l else current_language s)"
  by (auto simp: switch_language_def in_registry_def Let_def split: option.splits)

lemma auto_switch_registered:
  "in_registry (is_railway e) (current_language s) \<Longrightarrow>
   in_registry (is_railway e) (current_language (auto_switch e t s))"
  by (auto simp: auto_switch_def Let_def switch_language_result in_registry_iff split: option.splits)

lemma on_partial_registered:
  "in_registry (is_railway e) (current_language s) \<Longrightarrow>
   in_registry (is_railway e) (current_language (on_partial e now a txt s))"
  by (auto simp: on_partial_def Let_def emit_def fire_def auto_switch_registered split: option.splits)

lemma finalize_language [simp]:
  "current_language (finalize_current_transcription e now s) = current_language s"
  by (simp add: finalize_current_transcription_def Let_def split: option.splits)

lemma monitor_poll_language [simp]:
  "current_language (monitor_poll e now s) = current_language s"
  by (simp add: monitor_poll_def Let_def split: option.splits)

lemma force_finalize_language [simp]:
  "current_language (force_finalize e now a s) = current_language s"
  by (simp add: force_finalize_def Let_def)

lemma set_silence_language [simp]:
  "current_language (set_silence b s) = current_language s"
  by (simp add: set_silence_def)

lemma small_ops_language [simp]:
  "current_language (clear_history k s) = current_language s"
  "current_language (start_silence_detection now s) = current_language s"
  "current_language (stop_silence_detection s) = current_language s"
  "current_language (start_recording now s) = current_language s"
  "current_language (stop_recording e a s) = current_language s"
  "current_language (on_new_waiting_time w s) = current_language s"
  "current_language (snd (shutdown s)) = current_language s"
  by (simp_all add: clear_history_def start_silence_detection_def stop_silence_detection_def
      start_recording_def stop_recording_def on_new_waiting_time_def shutdown_def Let_def
      split: option.splits)

lemma step_registered:
  "in_registry (is_railway e) (current_language s) \<Longrightarrow>
   in_registry (is_railway e) (current_language (step e a s))"
proof (cases a)
  case (Pair now act)
  assume reg: "in_registry (is_railway e) (current_language s)"
  show ?thesis
  proof (cases act)
    case (SwitchLanguage l)
    with Pair reg show ?thesis by (simp add: switch_language_result)
  next
    case (OnPartial audio partial_text)
    with Pair reg show ?thesis by (simp add: on_partial_registered)
  qed (use Pair reg in \<open>simp_all\<close>)
qed

lemma run_registered:
  "in_registry (is_railway e) (current_language s) \<Longrightarrow>
   in_registry (is_railway e) (current_language (run e acts s))"
  by (induction acts arbitrary: s) (simp_all add: step_registered)

lemma init_language: "current_language (init e src c a x l cbs cr) = src"
  by (simp add: init_def Let_def)

lemma init_trace:
  "trace (init e src c a x lat cbs cr) =
     (if in_registry (is_railway e) src then []
      else [Warning (''Unknown language '' @ src @ '', using default config'')]) @
     (if langdetect_available e then [] else [Warning ''Language detection disabled''])"
  by (simp add: init_def Let_def in_registry_def)

text \<open>
  C9, as the code has it: the constructor stores \<open>source_language\<close> unchecked, so
  \<open>current_language\<close> is a key of \<open>LANGUAGE_MODELS\<close> at construction exactly when the
  argument is one, and an argument that is no key is only answered with a logged warning; once
  \<open>current_language\<close> is a key, every run of operations keeps it one (also a \<open>shutdown\<close> that
  raises), and \<open>switch_language\<close> returns \<open>False\<close> on a target outside the registry and leaves
  \<open>current_language\<close> as it was.
\<close>

theorem current_language_stays_registered:
  "current_language (init e src c a x lat cbs cr) = src \<and>
   (in_registry (is_railway e) src \<longrightarrow>
      in_registry (is_railway e)
        (current_language (run e acts (init e src c a x lat cbs cr)))) \<and>
   (in_registry (is_railway e) (current_language s) \<longrightarrow>
      in_registry (is_railway e) (current_language (run e acts s))) \<and>
   fst (switch_language e l s) = in_registry (is_railway e) l \<and>
   current_language (snd (switch_language e l s)) =
     (if in_registry (is_railway e) l then l else current_language s) \<and>
   trace (init e src c a x lat cbs cr) =
     (if in_registry (is_railway e) src then []
      else [Warning (''Unknown language '' @ src @ '', using default config'')]) @
     (if langdetect_available e then [] else [Warning ''Language detection disabled''])"
  by (simp add: init_language run_registered switch_language_result init_trace)

text \<open>
  The theorem at a session started in \<open>hi\<close> that receives a partial, a switch to the
  unsupported \<open>fr\<close> and a shutdown (which raises, the history being empty).
\<close>

theorem current_language_stays_registered_witness:
  "in_registry (is_railway sample_env) ''hi'' \<and>
   in_registry (is_railway sample_env) (current_language sample_processor) \<and>
   current_language (init sample_env ''hi'' True True False 0.3 [] True) = ''hi'' \<and>
   in_registry (is_railway sample_env)
     (current_language
        (run sample_env
           [(1, OnPartial None (Some three_words)), (2, SwitchLanguage ''fr''), (3, Shutdown)]
           (init sample_env ''hi'' True True False 0.3 [] True))) \<and>
   in_registry (is_railway sample_env)
     (current_language
        (run sample_env
           [(1, OnPartial None (Some three_words)), (2, SwitchLanguage ''fr''), (3, Shutdown)]
           sample_processor)) \<and>
   fst (switch_language sample_env ''fr'' sample_processor) = False \<and>
   current_language (snd (switch_language sample_env ''fr'' sample_processor)) = ''en'' \<and>
   trace (init sample_env ''hi'' True True False 0.3 [] True) = []"
proof -
  have a: "in_registry (is_railway sample_env) ''hi''"
    and b: "in_registry (is_railway sample_env) (current_language sample_processor)"
    by (simp_all add: in_registry_iff)
  have d: "langdetect_available sample_env"
    by (simp add: sample_env_def)
  show ?thesis
    using a b d current_language_stays_registered
      [of sample_env "''hi''" True True False "0.3" "[]" True
          "[(1, OnPartial None (Some three_words)), (2, SwitchLanguage ''fr''), (3, Shutdown)]"
          sample_processor "''fr''"]
    by (simp add: in_registry_iff)
qed

text \<open>
  C9 as stated fails at construction: a processor built with \<open>source_language = fr\<close> has
  \<open>current_language = fr\<close>, which is no key of \<open>LANGUAGE_MODELS\<close>.
\<close>

theorem unregistered_source_language_counterexample:
  "\<not> in_registry (is_railway sample_env)
       (current_language (init sample_env ''fr'' True True False 0.3 [] True))"
  by (simp add: init_language in_registry_iff)

lemma result_fields [simp]:
  "result_text (final_result e now a t s) = t"
  "is_final (final_result e now a t s)"
  "result_text (silence_result e now t s) = t"
  "is_final (silence_result e now t s)"
  by (simp_all add: final_result_def silence_result_def new_result_def)

lemma sample_processor_more [simp]:
  "callbacks sample_processor = [RealtimeTranscriptionCb, FullTranscriptionCb]"
  "\<not> export_path sample_processor"
  by (simp_all add: sample_processor_def init_def Let_def)

lemma force_finalize_trace:
  "recorder s \<noteq> None \<Longrightarrow> realtime_text s = Some t \<Longrightarrow> t \<noteq> [] \<Longrightarrow>
   FullTranscriptionCb \<in> set (callbacks s) \<Longrightarrow> \<not> export_path s \<Longrightarrow>
   trace (force_finalize e now a s) =
     trace s @ [TurnDetectionReset, FullTranscription (final_result e now a t s)]"
  by (simp add: force_finalize_def Let_def final_result_def auto_save_if_needed_def fire_def emit_def)

text \<open>
  C8: a final event with empty or whitespace-only text must create no result. The forced
  finalizations only test \<open>not self.realtime_text\<close>: after the partial \<open>" "\<close> (one space),
  \<open>force_finalize\<close> appends a result with that text and fires the final-transcription callback,
  and so does the silence-triggered finalization.
\<close>

theorem force_finalize_keeps_blank_text:
  "py_strip [32] = [] \<and>
   transcription_history
     (force_finalize sample_env 2 None (on_partial sample_env 1 None (Some [32]) sample_processor)) =
     [final_result sample_env 2 None [32] (on_partial sample_env 1 None (Some [32]) sample_processor)] \<and>
   last (trace
     (force_finalize sample_env 2 None (on_partial sample_env 1 None (Some [32]) sample_processor))) =
     FullTranscription
       (final_result sample_env 2 None [32] (on_partial sample_env 1 None (Some [32]) sample_processor)) \<and>
   transcription_history
     (finalize_current_transcription sample_env 2
        (on_partial sample_env 1 None (Some [32]) sample_processor)) =
     [silence_result sample_env 2 [32] (on_partial sample_env 1 None (Some [32]) sample_processor)]"
proof -
  let ?s = "on_partial sample_env 1 None (Some [32]) sample_processor"
  have s: "recorder ?s \<noteq> None" "realtime_text ?s = Some [32]" "transcription_history ?s = []"
    "FullTranscriptionCb \<in> set (callbacks ?s)" "\<not> export_path ?s"
    by (simp_all add: on_partial_frame)
  have "py_strip [32] = []"
    by (simp add: py_strip_def py_isspace_def)
  with s show ?thesis
    by (simp add: force_finalize_history force_finalize_trace finalize_history)
qed

text \<open>
  Empty final text, where it is discarded: \<open>on_final\<close> discards \<open>None\<close>, empty and whitespace-only text with a
  warning, leaving the history as it was; \<open>force_finalize\<close> discards a missing or empty partial
  text with a warning, and the silence-triggered finalization returns without a trace.
\<close>

theorem empty_final_text_is_discarded:
  "on_final e now a None s = log_warning ''Final transcription empty'' s \<and>
   (py_strip t = [] \<longrightarrow>
      on_final e now a (Some t) s = log_warning ''Final transcription empty'' s) \<and>
   transcription_history (log_warning ''Final transcription empty'' s) = transcription_history s \<and>
   trace (log_warning ''Final transcription empty'' s) =
     trace s @ [Warning ''Final transcription empty''] \<and>
   (\<not> truthy (realtime_text s) \<longrightarrow>
      force_finalize e now a s =
        log_warning ''Cannot force finalize: No recorder or no current text'' s \<and>
      finalize_current_transcription e now s = s)"
  by (auto simp: on_final_def force_finalize_def finalize_current_transcription_def
      split: option.splits)

text \<open>
  The theorem at a fresh session, with the text made of a space and a tab.
\<close>

theorem empty_final_text_is_discarded_witness:
  "on_final sample_env 1 None None sample_processor =
     log_warning ''Final transcription empty'' sample_processor \<and>
   py_strip [32, 9] = [] \<and>
   on_final sample_env 1 None (Some [32, 9]) sample_processor =
     log_warning ''Final transcription empty'' sample_processor \<and>
   \<not> truthy (realtime_text sample_processor) \<and>
   force_finalize sample_env 1 None sample_processor =
     log_warning ''Cannot force finalize: No recorder or no current text'' sample_processor \<and>
   finalize_current_transcription sample_env 1 sample_processor = sample_processor"
proof -
  have a: "py_strip [32, 9] = []"
    by (simp add: py_strip_def py_isspace_def)
  have b: "\<not> truthy (realtime_text sample_processor)"
    by (simp add: sample_processor_def init_def Let_def)
  show ?thesis
    using empty_final_text_is_discarded [of sample_env 1 None sample_processor "[32, 9]"] a b
    by simp
qed

section \<open>Hysteresis of automatic language switching\<close>


lemma recent_agreement_frame [simp]:
  "recent_agreement e d (s\<lparr>realtime_text := x\<rparr>) = recent_agreement e d s"
  "recent_agreement e d (s\<lparr>current_confidence := y\<rparr>) = recent_agreement e d s"
  by (simp_all add: recent_agreement_def)

lemma auto_switch_language:
  "current_language (auto_switch e t s) =
     (case detect_language e t of
        None \<Rightarrow> current_language s
      | Some d \<Rightarrow>
          if d \<noteq> [] \<and> d \<noteq> current_language s then
            if has_mixed_scripts t \<and> current_language s \<noteq> ''hi-en'' then ''hi-en''
            else if (d = ''hi'' \<or> d = ''en'') \<and> \<not> has_mixed_scripts t then
              if current_language s = ''hi-en''
              then (if 2 \<le> recent_agreement e d s then d else ''hi-en'')
              else d
            else current_language s
          else current_language s)"
  by (auto simp: auto_switch_def Let_def switch_language_result in_registry_iff recent_agreement_def
      split: option.splits)

lemma on_partial_language:
  "current_language (on_partial e now a txt s) =
     (case txt of
        None \<Rightarrow> current_language s
      | Some t \<Rightarrow>
          if t \<noteq> [] \<and> auto_language_switching s
          then current_language
                 (auto_switch e t
                    (s\<lparr>realtime_text := Some t,
                       current_confidence := estimate_confidence e (current_language s) t a\<rparr>))
          else current_language s)"
  by (simp add: on_partial_def Let_def split: option.splits)

lemma detect_language_nonempty: "detect_language e t = Some d \<Longrightarrow> t \<noteq> []"
  by (auto simp: detect_language_def split: if_splits)

text \<open>
  C4: in the code-switching mode \<open>hi-en\<close>, with automatic switching enabled, a partial whose
  detected language is \<open>hi\<close> or \<open>en\<close> and whose text has no mixed scripts moves the session to
  the detected language exactly when at least two of the last three history results are detected
  as that language, and leaves it in \<open>hi-en\<close> otherwise; and whatever the partial, the session
  leaves \<open>hi-en\<close> only in that way. (Every history entry of the processor is a finalized one.)
\<close>

theorem code_switch_hysteresis:
  assumes "current_language s = ''hi-en''"
  shows "(auto_language_switching s \<and> detect_language e t = Some d \<and> (d = ''hi'' \<or> d = ''en'') \<and>
          \<not> has_mixed_scripts t \<longrightarrow>
            current_language (on_partial e now a (Some t) s) =
              (if 2 \<le> recent_agreement e d s then d else ''hi-en'')) \<and>
         (current_language (on_partial e now a txt s) \<noteq> ''hi-en'' \<longrightarrow>
            (\<exists>t' d'. txt = Some t' \<and> auto_language_switching s \<and> detect_language e t' = Some d' \<and>
               (d' = ''hi'' \<or> d' = ''en'') \<and> \<not> has_mixed_scripts t' \<and>
               2 \<le> recent_agreement e d' s \<and>
               current_language (on_partial e now a txt s) = d'))"
proof (intro conjI impI)
  assume h: "auto_language_switching s \<and> detect_language e t = Some d \<and> (d = ''hi'' \<or> d = ''en'') \<and>
          \<not> has_mixed_scripts t"
  then have "t \<noteq> []" using detect_language_nonempty by blast
  with h assms show "current_language (on_partial e now a (Some t) s) =
              (if 2 \<le> recent_agreement e d s then d else ''hi-en'')"
    by (auto simp: on_partial_language auto_switch_language)
next
  assume left: "current_language (on_partial e now a txt s) \<noteq> ''hi-en''"
  then obtain t' where t': "txt = Some t'" "t' \<noteq> []" "auto_language_switching s"
    using assms by (auto simp: on_partial_language split: option.splits if_splits)
  let ?s = "s\<lparr>realtime_text := Some t',
                current_confidence := estimate_confidence e (current_language s) t' a\<rparr>"
  have eq: "current_language (on_partial e now a txt s) = current_language (auto_switch e t' ?s)"
    using t' by (simp add: on_partial_language)
  with left have "current_language (auto_switch e t' ?s) \<noteq> ''hi-en''" by simp
  then obtain d' where d': "detect_language e t' = Some d'" "d' = ''hi'' \<or> d' = ''en''"
    "\<not> has_mixed_scripts t'" "2 \<le> recent_agreement e d' s"
    "current_language (auto_switch e t' ?s) = d'"
    using assms by (auto simp: auto_switch_language split: option.splits if_splits)
  with t' eq show "\<exists>t' d'. txt = Some t' \<and> auto_language_switching s \<and> detect_language e t' = Some d' \<and>
               (d' = ''hi'' \<or> d' = ''en'') \<and> \<not> has_mixed_scripts t' \<and>
               2 \<le> recent_agreement e d' s \<and>
               current_language (on_partial e now a txt s) = d'"
    by auto
qed

lemma sample_detect [simp]:
  "detect_language sample_env three_words = Some ''en''"
  "detect_language sample_env hindi_words = Some ''hi''"
  "\<not> has_mixed_scripts three_words"
  "\<not> has_mixed_scripts hindi_words"
  by (simp_all add: detect_language_def sample_env_def three_words_def hindi_words_def
      py_split_def py_isspace_def LANGUAGE_DETECTION_MIN_WORDS_def has_mixed_scripts_def
      is_latin_def is_devanagari_def is_other_indic_def lang_mapping_def)

lemma hindi_words_ok [simp]: "hindi_words \<noteq> []" "py_strip hindi_words \<noteq> []"
  by (simp_all add: hindi_words_def py_strip_def py_isspace_def)

lemma mixed_session_fields [simp]:
  "transcription_history mixed_session = []"
  "current_language mixed_session = ''hi-en''"
  "auto_language_switching mixed_session"
  by (simp_all add: mixed_session_def init_def Let_def)

lemma on_final_auto [simp]:
  "auto_language_switching (on_final e now a txt s) = auto_language_switching s"
  by (simp add: on_final_def Let_def auto_save_if_needed_def emit_def fire_def log_warning_def
      split: option.splits)

lemma after_finals_fields [simp]:
  "current_language after_en_hi = ''hi-en''"
  "auto_language_switching after_en_hi"
  "current_language after_en_hi_en = ''hi-en''"
  "auto_language_switching after_en_hi_en"
  by (simp_all add: after_en_hi_def after_en_hi_en_def)

lemma after_finals_agreement [simp]:
  "recent_agreement sample_env ''en'' after_en_hi = 1"
  "recent_agreement sample_env ''en'' after_en_hi_en = 2"
  by (simp_all add: after_en_hi_def after_en_hi_en_def recent_agreement_def on_final_history
      py_last_n_def)

text \<open>
  The theorem on the scenario of finals alternating English, Hindi, English: after the first
  two finals an English partial leaves the session in \<open>hi-en\<close> (one of the last three agrees);
  after the third it moves to \<open>en\<close> (two agree).
\<close>

theorem code_switch_hysteresis_witness:
  "current_language after_en_hi_en = ''hi-en'' \<and> auto_language_switching after_en_hi_en \<and>
   detect_language sample_env three_words = Some ''en'' \<and> \<not> has_mixed_scripts three_words \<and>
   recent_agreement sample_env ''en'' after_en_hi_en = 2 \<and>
   current_language (on_partial sample_env 4 None (Some three_words) after_en_hi_en) = ''en'' \<and>
   current_language after_en_hi = ''hi-en'' \<and> auto_language_switching after_en_hi \<and>
   recent_agreement sample_env ''en'' after_en_hi = 1 \<and>
   current_language (on_partial sample_env 3 None (Some three_words) after_en_hi) = ''hi-en''"
  using code_switch_hysteresis
      [of after_en_hi_en sample_env three_words "''en''" 4 None "Some three_words"]
    code_switch_hysteresis
      [of after_en_hi sample_env three_words "''en''" 3 None "Some three_words"]
  by simp

section \<open>The silence monitor\<close>


lemma finalize_frame [simp]:
  "silence_time (finalize_current_transcription e now s) = silence_time s"
  "realtime_text (finalize_current_transcription e now s) = realtime_text s"
  "recorder (finalize_current_transcription e now s) = recorder s"
  "shutdown_performed (finalize_current_transcription e now s) = shutdown_performed s"
  "pipeline_latency (finalize_current_transcription e now s) = pipeline_latency s"
  by (simp_all add: finalize_current_transcription_def Let_def auto_save_if_needed_def fire_def
      emit_def split: option.splits)

lemma finalize_last:
  assumes "realtime_text s = Some t" "t \<noteq> []"
  shows "last (transcription_history (finalize_current_transcription e now s)) =
           silence_result e now t s"
proof -
  have "Suc 0 - TRANSCRIPTION_CACHE_SIZE e = 0"
    using cache_size_pos [of e] by arith
  then show ?thesis
    using assms by (simp add: finalize_history py_last_n_def)
qed

text \<open>
  The trigger of the silence monitor: a poll finalizes the current partial transcript exactly
  when the processor is not shut down, a recorder exists, a non-zero silence start is recorded,
  \<open>now\<close> exceeds \<open>silence_start + silence_duration - pipeline_latency - reserve\<close> and the
  partial text is non-empty; the finalized result carries the partial text.
\<close>

theorem silence_monitor_trigger:
  "monitor_poll e now s =
     (if \<not> shutdown_performed s \<and> recorder s \<noteq> None \<and> silence_time s \<noteq> 0 \<and>
         now > silence_time s + post_speech_silence_duration (the (recorder s))
                 - pipeline_latency s - PIPELINE_RESERVE_TIME_MS e \<and>
         truthy (realtime_text s)
      then finalize_current_transcription e now s else s) \<and>
   (truthy (realtime_text s) \<longrightarrow>
      last (transcription_history (finalize_current_transcription e now s)) =
        silence_result e now (the (realtime_text s)) s)"
proof -
  have a: "monitor_poll e now s =
     (if \<not> shutdown_performed s \<and> recorder s \<noteq> None \<and> silence_time s \<noteq> 0 \<and>
         now > silence_time s + post_speech_silence_duration (the (recorder s))
                 - pipeline_latency s - PIPELINE_RESERVE_TIME_MS e \<and>
         truthy (realtime_text s)
      then finalize_current_transcription e now s else s)"
    by (auto simp: monitor_poll_def Let_def split: option.splits)
  have b: "truthy (realtime_text s) \<Longrightarrow>
      last (transcription_history (finalize_current_transcription e now s)) =
        silence_result e now (the (realtime_text s)) s"
    by (cases "realtime_text s") (simp_all add: finalize_last)
  from a b show ?thesis by simp
qed

lemma watching_fields [simp]:
  "\<not> shutdown_performed watching"
  "recorder watching =
     Some \<lparr>language_param = ''en'', post_speech_silence_duration = 0.5, speech_end_silence_start = 0\<rparr>"
  "silence_time watching = 100"
  "pipeline_latency watching = 0.3"
  "realtime_text watching = Some hello_wor"
  "transcription_history watching = []"
  by (simp_all add: watching_def sample_processor_def init_def Let_def sample_env_def
      LANGUAGE_MODELS_def start_recording_def set_silence_def fire_def emit_def
      start_silence_detection_def on_partial_def auto_switch_def detect_language_def
      hello_wor_def py_split_def py_isspace_def LANGUAGE_DETECTION_MIN_WORDS_def)

lemma sample_reserve [simp]: "PIPELINE_RESERVE_TIME_MS sample_env = 0.015"
  by (simp add: PIPELINE_RESERVE_TIME_MS_def sample_env_def)

lemma hello_wor_nonempty [simp]: "hello_wor \<noteq> []"
  by (simp add: hello_wor_def)

text \<open>
  The theorem on the partials \<open>hel\<close>, \<open>hello\<close>, \<open>hello wor\<close> and a silence starting at 100
  (silence duration 0.5, pipeline latency 0.3, reserve 0.015, so the deadline is 100.185): the
  poll at 100.18 does nothing, the poll at 100.19 finalizes \<open>hello wor\<close>.
\<close>

theorem silence_monitor_trigger_witness:
  "truthy (realtime_text watching) \<and>
   monitor_poll sample_env 100.18 watching = watching \<and>
   monitor_poll sample_env 100.19 watching = finalize_current_transcription sample_env 100.19 watching \<and>
   result_text (last (transcription_history (monitor_poll sample_env 100.19 watching))) = hello_wor"
  using silence_monitor_trigger [of sample_env "100.18" watching]
    silence_monitor_trigger [of sample_env "100.19" watching]
  by simp

text \<open>
  C2: after it has finalized, the monitor must be back in Idle, so that one silence window
  produces one finalization. Neither the loop nor \<open>_finalize_current_transcription\<close> resets the
  silence start or the partial text. Here the partials \<open>hel\<close>, \<open>hello\<close>, \<open>hello wor\<close> are followed
  by a silence starting at 100 (deadline 100.185): after the finalizing poll at 100.19 the silence
  start is still 100 and the partial is still \<open>hello wor\<close>, and the next poll, 5 ms later,
  finalizes it again: the one silence window has put \<open>hello wor\<close> into the history twice.
\<close>

theorem silence_window_finalized_twice:
  "silence_time (run sample_env [(100.19, MonitorPoll)] watching) = 100 \<and>
   realtime_text (run sample_env [(100.19, MonitorPoll)] watching) = Some hello_wor \<and>
   map result_text
     (transcription_history
        (run sample_env [(100.19, MonitorPoll), (100.195, MonitorPoll)] watching)) =
     [hello_wor, hello_wor]"
proof -
  have p: "\<And>now s. monitor_poll sample_env now s =
     (if \<not> shutdown_performed s \<and> recorder s \<noteq> None \<and> silence_time s \<noteq> 0 \<and>
         now > silence_time s + post_speech_silence_duration (the (recorder s))
                 - pipeline_latency s - PIPELINE_RESERVE_TIME_MS sample_env \<and>
         truthy (realtime_text s)
      then finalize_current_transcription sample_env now s else s)"
    by (auto simp: monitor_poll_def Let_def split: option.splits)
  show ?thesis
    by (simp add: p finalize_history)
qed

section \<open>The server: backpressure, frame parsing and text export\<close>


lemma enqueue_all_queue:
  "incoming_chunks (enqueue_all cap ms c) =
     incoming_chunks c @ take (nat cap - length (incoming_chunks c)) ms"
proof (induction ms arbitrary: c)
  case Nil
  then show ?case by simp
next
  case (Cons m ms)
  show ?case
  proof (cases "int (length (incoming_chunks c)) < cap")
    case True
    then have "nat cap - length (incoming_chunks c) = Suc (nat cap - Suc (length (incoming_chunks c)))"
      by arith
    with True show ?thesis
      by (simp add: Cons.IH enqueue_def Let_def)
  next
    case False
    then have "nat cap - length (incoming_chunks c) = 0" by arith
    with False show ?thesis
      by (simp add: Cons.IH enqueue_def Let_def)
  qed
qed

lemma enqueue_all_warnings:
  "length (incoming_chunks c) \<le> nat cap \<Longrightarrow> 0 \<le> cap \<Longrightarrow>
   warnings (enqueue_all cap ms c) =
     warnings c @
     replicate (length ms - (nat cap - length (incoming_chunks c))) (AudioQueueFull (nat cap) cap)"
proof (induction ms arbitrary: c)
  case Nil
  then show ?case by simp
next
  case (Cons m ms)
  show ?case
  proof (cases "int (length (incoming_chunks c)) < cap")
    case True
    then have a: "Suc (length ms) - (nat cap - length (incoming_chunks c)) =
                  length ms - (nat cap - Suc (length (incoming_chunks c)))"
      and b: "Suc (length (incoming_chunks c)) \<le> nat cap"
      by arith+
    show ?thesis
      using True Cons.IH [of "enqueue cap m c"] Cons.prems a b
      by (simp add: enqueue_def Let_def)
  next
    case False
    with Cons.prems have full: "length (incoming_chunks c) = nat cap" by arith
    then have a: "Suc (length ms) - (nat cap - length (incoming_chunks c)) = Suc (length ms)"
      by simp
    show ?thesis
      using False Cons.IH [of "enqueue cap m c"] Cons.prems full
      by (simp add: enqueue_def Let_def replicate_app_Cons_same)
  qed
qed

text \<open>
  C3, as the code has it: every enqueue returns at once (the queue itself is unbounded and the
  size check decides). After \<open>capacity + 1\<close> enqueues into an empty queue, with
  \<open>capacity \<ge> 0\<close>, the queue holds exactly \<open>capacity\<close> items; they are the first \<open>capacity\<close>
  ones enqueued, in order, and the newest frame is the one dropped, with one queue-full warning
  and no exception.
\<close>

theorem newest_frames_are_dropped:
  assumes "0 \<le> cap" and "length ms = nat cap + 1"
  shows "incoming_chunks (enqueue_all cap ms \<lparr>incoming_chunks = [], warnings = []\<rparr>) = butlast ms \<and>
         length (incoming_chunks (enqueue_all cap ms \<lparr>incoming_chunks = [], warnings = []\<rparr>)) = nat cap \<and>
         warnings (enqueue_all cap ms \<lparr>incoming_chunks = [], warnings = []\<rparr>) =
           [AudioQueueFull (nat cap) cap]"
proof -
  have "butlast ms = take (nat cap) ms"
    using assms(2) by (simp add: butlast_conv_take)
  then show ?thesis
    using assms by (simp add: enqueue_all_queue enqueue_all_warnings)
qed


text \<open>
  The theorem at capacity 2 and three frames.
\<close>

theorem newest_frames_are_dropped_witness:
  "(0::int) \<le> 2 \<and> length [sample_frame 1, sample_frame 2, sample_frame 3] = nat 2 + 1 \<and>
   incoming_chunks (enqueue_all 2 [sample_frame 1, sample_frame 2, sample_frame 3]
      \<lparr>incoming_chunks = [], warnings = []\<rparr>) = [sample_frame 1, sample_frame 2] \<and>
   warnings (enqueue_all 2 [sample_frame 1, sample_frame 2, sample_frame 3]
      \<lparr>incoming_chunks = [], warnings = []\<rparr>) = [AudioQueueFull 2 2]"
  using newest_frames_are_dropped [of 2 "[sample_frame 1, sample_frame 2, sample_frame 3]"]
  by simp

lemma parse_audio_message:
  "parse_binary sample_hms 7 (audio_message 1) = Frame (sample_frame 1)"
  "parse_binary sample_hms 7 (audio_message 2) = Frame (sample_frame 2)"
  "parse_binary sample_hms 7 (audio_message 3) = Frame (sample_frame 3)"
  by (simp_all add: parse_binary_def audio_message_def sample_frame_def unpack_u32_be_def Let_def)

text \<open>
  C3 as stated fails where it says that the survivors are the most recently enqueued frames:
  with capacity 2, of the messages with timestamps 1, 2, 3 the queue keeps the frames 1 and 2,
  not 2 and 3.
\<close>

theorem survivors_are_the_earliest_counterexample:
  "incoming_chunks
     (receive_all sample_hms 2 7 [audio_message 1, audio_message 2, audio_message 3]
        empty_connection) = [sample_frame 1, sample_frame 2] \<and>
   [sample_frame 1, sample_frame 2] \<noteq> [sample_frame 2, sample_frame 3]"
  by (simp add: process_binary_message_def parse_audio_message enqueue_def Let_def
      empty_connection_def sample_frame_def)

lemma unat_byte_of_nat: "unat (of_nat n :: byte) = n mod 256"
  by (simp add: unat_of_nat)

lemma unpack_four:
  "unpack_u32_be [a, b, c, d] = ((unat a * 256 + unat b) * 256 + unat c) * 256 + unat d"
  by (simp add: unpack_u32_be_def)


lemma base256_digits:
  assumes "(n::nat) < 2 ^ 32"
  shows "((n div 2 ^ 24 mod 256 * 256 + n div 2 ^ 16 mod 256) * 256 + n div 2 ^ 8 mod 256) * 256
           + n mod 256 = n"
proof -
  define q1 where "q1 = n div 256"
  define q2 where "q2 = q1 div 256"
  define q3 where "q3 = q2 div 256"
  have d8: "n div 2 ^ 8 = q1" by (simp add: q1_def)
  have d16: "n div 2 ^ 16 = q2"
    using div_mult2_eq [of n 256 256] by (simp add: q1_def q2_def)
  have d24: "n div 2 ^ 24 = q3"
    using div_mult2_eq [of n 65536 256] div_mult2_eq [of n 256 256]
    by (simp add: q1_def q2_def q3_def)
  have "q3 < 256"
    using assms d24 by (simp add: less_mult_imp_div_less)
  then have e3: "q3 mod 256 = q3" by simp
  have e2: "q3 * 256 + q2 mod 256 = q2" by (simp add: q3_def)
  have e1: "q2 * 256 + q1 mod 256 = q1" by (simp add: q2_def)
  have e0: "q1 * 256 + n mod 256 = n" by (simp add: q1_def)
  show ?thesis
    by (simp only: d8 d16 d24 e3 e2 e1 e0)
qed

lemma unpack_pack:
  assumes "pack_u32_be n = Some bs"
  shows "unpack_u32_be bs = n \<and> length bs = 4"
proof -
  have n: "n < 2 ^ 32"
    and bs: "bs = [of_nat (n div 2 ^ 24), of_nat (n div 2 ^ 16), of_nat (n div 2 ^ 8), of_nat n]"
    using assms by (auto simp: pack_u32_be_def split: if_splits)
  have "unpack_u32_be bs =
     ((n div 2 ^ 24 mod 256 * 256 + n div 2 ^ 16 mod 256) * 256 + n div 2 ^ 8 mod 256) * 256
           + n mod 256"
    unfolding bs unpack_four unat_byte_of_nat ..
  then have "unpack_u32_be bs = n"
    using base256_digits [OF n] by (rule trans)
  moreover have "length bs = 4"
    by (simp add: bs)
  ultimately show ?thesis by (rule conjI)
qed

lemma byte_digit: "unat (a::byte) < 256"
  using unsigned_less [of a, where ?'a = nat] by simp

lemma split_digit:
  "(r::nat) < 256 \<Longrightarrow> (q * 256 + r) div 256 = q \<and> (q * 256 + r) mod 256 = r"
  by simp

lemma byte_of_nat_mod: "(of_nat n :: byte) = of_nat (n mod 256)"
  by (simp add: word_of_nat_eq_iff take_bit_eq_mod)

lemma pack_unpack:
  "pack_u32_be (unpack_u32_be [a, b, c, d]) = Some [a, b, c, d]"
proof -
  define n where "n = unpack_u32_be [a, b, c, d]"
  have n: "n = ((unat a * 256 + unat b) * 256 + unat c) * 256 + unat d"
    by (simp only: n_def unpack_four)
  have q1: "n div 256 = (unat a * 256 + unat b) * 256 + unat c" and r1: "n mod 256 = unat d"
    using split_digit [OF byte_digit [of d]] by (simp_all only: n)
  have q2: "n div 256 div 256 = unat a * 256 + unat b" and r2: "n div 256 mod 256 = unat c"
    using split_digit [OF byte_digit [of c]] by (simp_all only: q1)
  have q3: "n div 256 div 256 div 256 = unat a" and r3: "n div 256 div 256 mod 256 = unat b"
    using split_digit [OF byte_digit [of b]] by (simp_all only: q2)
  have d8: "n div 2 ^ 8 = n div 256" by simp
  have d16: "n div 2 ^ 16 = n div 256 div 256"
    using div_mult2_eq [of n 256 256] by simp
  have d24: "n div 2 ^ 24 = n div 256 div 256 div 256"
    using div_mult2_eq [of n 65536 256] div_mult2_eq [of n 256 256] by simp
  have "n div 2 ^ 24 < 256"
    using byte_digit [of a] by (simp only: d24 q3)
  then have bound: "n < 2 ^ 32"
    using div_less_iff_less_mult [of "2 ^ 24" n 256] by simp
  have w1: "(of_nat (n div 2 ^ 24) :: byte) = a"
    by (simp only: d24 q3 of_nat_unat) simp
  have w2: "(of_nat (n div 2 ^ 16) :: byte) = b"
    using byte_of_nat_mod [of "n div 2 ^ 16"] by (simp only: d16 r3 of_nat_unat) simp
  have w3: "(of_nat (n div 2 ^ 8) :: byte) = c"
    using byte_of_nat_mod [of "n div 2 ^ 8"] by (simp only: d8 r2 of_nat_unat) simp
  have w4: "(of_nat n :: byte) = d"
    using byte_of_nat_mod [of n] by (simp only: r1 of_nat_unat) simp
  show ?thesis
    unfolding n_def [symmetric] pack_u32_be_def using bound by (simp only: w1 w2 w3 w4 if_True)
qed


lemma flag_bit: "((flags::nat) mod 2 = Suc 0) = odd flags"
  by presburger

lemma parse_sent:
  assumes "send_audio_chunk audio ts flags = Some raw"
  shows "parse_binary hms ns raw =
           Frame \<lparr>client_sent_ms = ts, client_sent = ts * 1000000,
                   client_sent_formatted = format_timestamp_ns hms (int (ts * 1000000)),
                   isTTSPlaying = odd flags, server_received = ns,
                   server_received_formatted = format_timestamp_ns hms (int ns), pcm = audio\<rparr> \<and>
         unpack_u32_be (take 4 (drop 4 raw)) = flags"
proof -
  obtain A B where A: "pack_u32_be ts = Some A" and B: "pack_u32_be flags = Some B"
    and raw: "raw = A @ B @ audio"
    using assms by (auto simp: send_audio_chunk_def split: option.splits)
  have uA: "unpack_u32_be A = ts" "length A = 4" using unpack_pack [OF A] by simp_all
  have uB: "unpack_u32_be B = flags" "length B = 4" using unpack_pack [OF B] by simp_all
  have t: "take 4 raw = A" "take 4 (drop 4 raw) = B" "drop 8 raw = audio" "raw \<noteq> []"
    "\<not> length raw < 8"
    using uA(2) uB(2) by (auto simp: raw)
  show ?thesis
    by (simp add: parse_binary_def t uA uB Let_def flag_bit)
qed

lemma parse_long:
  assumes "8 \<le> length raw"
  shows "\<exists>m. parse_binary hms ns raw = Frame m \<and>
           send_audio_chunk (pcm m) (client_sent_ms m) (unpack_u32_be (take 4 (drop 4 raw))) = Some raw"
proof -
  obtain a b c d e f g h rest where raw: "raw = a # b # c # d # e # f # g # h # rest"
  proof -
    obtain a r1 where "raw = a # r1" using assms by (cases raw) auto
    moreover obtain b r2 where "r1 = b # r2" using assms calculation by (cases r1) auto
    moreover obtain c r3 where "r2 = c # r3" using assms calculation by (cases r2) auto
    moreover obtain d r4 where "r3 = d # r4" using assms calculation by (cases r3) auto
    moreover obtain e r5 where "r4 = e # r5" using assms calculation by (cases r4) auto
    moreover obtain f r6 where "r5 = f # r6" using assms calculation by (cases r5) auto
    moreover obtain g r7 where "r6 = g # r7" using assms calculation by (cases r6) auto
    moreover obtain h r8 where "r7 = h # r8" using assms calculation by (cases r7) auto
    ultimately show ?thesis using that by blast
  qed
  show ?thesis
    by (simp add: raw parse_binary_def Let_def send_audio_chunk_def pack_unpack)
qed

text \<open>
  C5, as the code has it: a message built as \<open>struct.pack("!II", timestamp_ms, flags) + pcm\<close>
  is parsed to exactly that timestamp, those flags (bit 0 as \<open>isTTSPlaying\<close>) and that payload,
  with \<open>client_sent = timestamp_ms * 1000000\<close>; every buffer of at least 8 bytes parses to a
  frame whose triple packs back to the buffer; a buffer of 1 to 7 bytes is logged and discarded;
  an empty buffer is skipped without a log entry. Nothing raises and the loop goes on.
\<close>

theorem frame_parsing:
  "(send_audio_chunk audio ts flags = Some raw \<longrightarrow>
      parse_binary hms ns raw =
        Frame \<lparr>client_sent_ms = ts, client_sent = ts * 1000000,
                client_sent_formatted = format_timestamp_ns hms (int (ts * 1000000)),
                isTTSPlaying = odd flags, server_received = ns,
                server_received_formatted = format_timestamp_ns hms (int ns), pcm = audio\<rparr> \<and>
      unpack_u32_be (take 4 (drop 4 raw)) = flags) \<and>
   (8 \<le> length raw \<longrightarrow>
      (\<exists>m. parse_binary hms ns raw = Frame m \<and>
         send_audio_chunk (pcm m) (client_sent_ms m) (unpack_u32_be (take 4 (drop 4 raw))) =
           Some raw)) \<and>
   (0 < length raw \<and> length raw < 8 \<longrightarrow>
      parse_binary hms ns raw = Rejected PacketTooShort \<and>
      process_binary_message hms cap ns raw c = c\<lparr>warnings := warnings c @ [PacketTooShort]\<rparr>) \<and>
   parse_binary hms ns [] = Skipped \<and>
   process_binary_message hms cap ns [] c = c"
proof -
  have short: "0 < length raw \<and> length raw < 8 \<longrightarrow>
      parse_binary hms ns raw = Rejected PacketTooShort \<and>
      process_binary_message hms cap ns raw c = c\<lparr>warnings := warnings c @ [PacketTooShort]\<rparr>"
    by (auto simp: parse_binary_def process_binary_message_def)
  have empty: "parse_binary hms ns [] = Skipped" "process_binary_message hms cap ns [] c = c"
    by (simp_all add: parse_binary_def process_binary_message_def)
  show ?thesis
    using parse_sent [of audio ts flags raw hms ns] parse_long [of raw hms ns] short empty
    by blast
qed

text \<open>
  The theorem at the message with timestamp 258, flags 1 and payload \<open>01 02\<close>, and at its first
  five bytes.
\<close>

theorem frame_parsing_witness:
  "send_audio_chunk [1, 2] 258 1 = Some [0, 0, 1, 2, 0, 0, 0, 1, 1, 2] \<and>
   parse_binary sample_hms 7 [0, 0, 1, 2, 0, 0, 0, 1, 1, 2] =
     Frame \<lparr>client_sent_ms = 258, client_sent = 258000000,
             client_sent_formatted = format_timestamp_ns sample_hms 258000000,
             isTTSPlaying = True, server_received = 7,
             server_received_formatted = format_timestamp_ns sample_hms 7, pcm = [1, 2]\<rparr> \<and>
   (8::nat) \<le> length [0, 0, 1, 2, 0, 0, 0, 1, 1, 2 :: byte] \<and>
   (0::nat) < length [0, 0, 1, 2, 0 :: byte] \<and> length [0, 0, 1, 2, 0 :: byte] < 8 \<and>
   process_binary_message sample_hms 100 7 [0, 0, 1, 2, 0] empty_connection =
     empty_connection\<lparr>warnings := [PacketTooShort]\<rparr>"
proof -
  have sent: "send_audio_chunk [1, 2] 258 1 = Some [0, 0, 1, 2, 0, 0, 0, 1, 1, 2]"
    by (simp add: send_audio_chunk_def pack_u32_be_def)
  show ?thesis
    using sent
      frame_parsing [of "[1, 2]" 258 1 "[0, 0, 1, 2, 0, 0, 0, 1, 1, 2]" sample_hms 7 100
        empty_connection]
      frame_parsing [of "[1, 2]" 258 1 "[0, 0, 1, 2, 0]" sample_hms 7 100 empty_connection]
    by (simp add: empty_connection_def)
qed

text \<open>
  C5 as stated fails at the empty buffer: its length is under 8, it is discarded, and no warning
  is logged.
\<close>

theorem empty_payload_not_logged_counterexample:
  "length ([] :: byte list) < 8 \<and>
   warnings (process_binary_message sample_hms 100 7 [] empty_connection) = []"
  by (simp add: process_binary_message_def parse_binary_def empty_connection_def)


lemma srv_on_partial_fields:
  "transcriptions (srv_on_partial hms now txt s) =
     (if txt \<noteq> [] \<and> txt \<noteq> cb_last_partial_text s
      then transcriptions s @
        [\<lparr>entry_text = txt, entry_language = app_current_language s, entry_timestamp = now,
          formatted_time = format_timestamp_ns hms (py_int (now * 1000000000)),
          entry_is_final = False, session_start = session_start_iso s\<rparr>]
      else transcriptions s)"
  "session_start_text (srv_on_partial hms now txt s) = session_start_text s"
  by (simp_all add: srv_on_partial_def add_transcription_def Let_def)

lemma srv_on_final_fields:
  "transcriptions (srv_on_final hms now txt s) =
     (if txt \<noteq> [] \<and> py_strip txt \<noteq> []
      then transcriptions s @
        [\<lparr>entry_text = txt, entry_language = app_current_language s, entry_timestamp = now,
          formatted_time = format_timestamp_ns hms (py_int (now * 1000000000)),
          entry_is_final = True, session_start = session_start_iso s\<rparr>]
      else transcriptions s)"
  "session_start_text (srv_on_final hms now txt s) = session_start_text s"
  by (simp_all add: srv_on_final_def add_transcription_def Let_def)

text \<open>
  C10: the lines of \<open>export_to_text\<close> after the header are the lines of the stored entries
  whose \<open>is_final\<close> flag is true, in order. \<open>on_partial\<close> appends its text to the same history as
  an entry with \<open>is_final = False\<close>, and the text export is the same before and after it, while a
  final event with non-blank text adds its line.
\<close>

theorem text_export_skips_partials:
  "tl (export_lines s) = map entry_line (filter entry_is_final (transcriptions s)) \<and>
   transcriptions (srv_on_partial hms now txt s) =
     (if txt \<noteq> [] \<and> txt \<noteq> cb_last_partial_text s
      then transcriptions s @
        [\<lparr>entry_text = txt, entry_language = app_current_language s, entry_timestamp = now,
          formatted_time = format_timestamp_ns hms (py_int (now * 1000000000)),
          entry_is_final = False, session_start = session_start_iso s\<rparr>]
      else transcriptions s) \<and>
   export_lines (srv_on_partial hms now txt s) = export_lines s \<and>
   export_to_text (srv_on_partial hms now txt s) = export_to_text s \<and>
   export_lines (srv_on_final hms now txt s) =
     (if txt \<noteq> [] \<and> py_strip txt \<noteq> []
      then export_lines s @
        [entry_line
          \<lparr>entry_text = txt, entry_language = app_current_language s, entry_timestamp = now,
           formatted_time = format_timestamp_ns hms (py_int (now * 1000000000)),
           entry_is_final = True, session_start = session_start_iso s\<rparr>]
      else export_lines s)"
proof -
  have a: "export_lines (srv_on_partial hms now txt s) = export_lines s"
    by (simp add: export_lines_def srv_on_partial_fields)
  then have b: "export_to_text (srv_on_partial hms now txt s) = export_to_text s"
    by (simp add: export_to_text_def)
  have c: "tl (export_lines s) = map entry_line (filter entry_is_final (transcriptions s))"
    by (simp add: export_lines_def)
  have d: "export_lines (srv_on_final hms now txt s) =
     (if txt \<noteq> [] \<and> py_strip txt \<noteq> []
      then export_lines s @
        [entry_line
          \<lparr>entry_text = txt, entry_language = app_current_language s, entry_timestamp = now,
           formatted_time = format_timestamp_ns hms (py_int (now * 1000000000)),
           entry_is_final = True, session_start = session_start_iso s\<rparr>]
      else export_lines s)"
    by (simp add: export_lines_def srv_on_final_fields)
  from a b c d show ?thesis
    by (simp add: srv_on_partial_fields)
qed

section \<open>History capacity without force_finalize\<close>


lemma length_py_last_n_le: "length (py_last_n n xs) \<le> length xs"
  by (simp add: py_last_n_def)

lemma finalize_length_le:
  "length (transcription_history s) \<le> TRANSCRIPTION_CACHE_SIZE e \<Longrightarrow>
   length (transcription_history (finalize_current_transcription e now s)) \<le> TRANSCRIPTION_CACHE_SIZE e"
proof (cases "truthy (realtime_text s)")
  case True
  assume "length (transcription_history s) \<le> TRANSCRIPTION_CACHE_SIZE e"
  with True show ?thesis
    by (cases "realtime_text s") (auto simp: finalize_history length_py_last_n)
next
  case False
  assume "length (transcription_history s) \<le> TRANSCRIPTION_CACHE_SIZE e"
  with False show ?thesis
    by (cases "realtime_text s") (auto simp: finalize_current_transcription_def)
qed

lemma on_final_length_le:
  "length (transcription_history s) \<le> TRANSCRIPTION_CACHE_SIZE e \<Longrightarrow>
   length (transcription_history (on_final e now a txt s)) \<le> TRANSCRIPTION_CACHE_SIZE e"
proof (cases "truthy txt \<and> py_strip (the txt) \<noteq> []")
  case True
  assume "length (transcription_history s) \<le> TRANSCRIPTION_CACHE_SIZE e"
  with True show ?thesis
    by (cases "txt") (auto simp: on_final_length)
next
  case False
  assume "length (transcription_history s) \<le> TRANSCRIPTION_CACHE_SIZE e"
  with False show ?thesis
    by (cases "txt") (auto simp: on_final_def)
qed

lemma small_ops_history [simp]:
  "transcription_history (set_silence b s) = transcription_history s"
  "transcription_history (start_silence_detection now s) = transcription_history s"
  "transcription_history (stop_silence_detection s) = transcription_history s"
  "transcription_history (start_recording now s) = transcription_history s"
  "transcription_history (stop_recording e a s) = transcription_history s"
  "transcription_history (on_new_waiting_time w s) = transcription_history s"
  "transcription_history (snd (shutdown s)) = transcription_history s"
  by (simp_all add: set_silence_def start_silence_detection_def stop_silence_detection_def
      start_recording_def stop_recording_def on_new_waiting_time_def shutdown_def Let_def
      split: option.splits)

lemma step_history_bounded:
  assumes "\<not> is_force_finalize (snd a)"
    and "length (transcription_history s) \<le> TRANSCRIPTION_CACHE_SIZE e"
  shows "length (transcription_history (step e a s)) \<le> TRANSCRIPTION_CACHE_SIZE e"
proof (cases a)
  case (Pair now act)
  show ?thesis
  proof (cases act)
    case (OnFinal audio final_text)
    with Pair assms show ?thesis by (simp add: on_final_length_le)
  next
    case MonitorPoll
    with Pair assms show ?thesis
      by (simp add: monitor_poll_def Let_def finalize_length_le split: option.splits)
  next
    case (ClearHistory k)
    with Pair assms show ?thesis
      using length_py_last_n_le [of "nat k" "transcription_history s"]
      by (simp add: clear_history_def)
  next
    case (OnPartial audio partial_text)
    with Pair assms show ?thesis by (simp add: on_partial_frame)
  qed (use Pair assms in \<open>simp_all\<close>)
qed

text \<open>
  The capacity of the history without \<open>force_finalize\<close>: in every run of operations that
  has none, a history within the capacity stays within the capacity.
\<close>

theorem history_bounded_without_force_finalize:
  assumes "list_all (\<lambda>a. \<not> is_force_finalize (snd a)) acts"
    and "length (transcription_history s) \<le> TRANSCRIPTION_CACHE_SIZE e"
  shows "length (transcription_history (run e acts s)) \<le> TRANSCRIPTION_CACHE_SIZE e"
  using assms
proof (induction acts arbitrary: s)
  case Nil
  then show ?case by simp
next
  case (Cons a acts)
  then show ?case
    by (simp add: step_history_bounded)
qed

text \<open>
  The theorem at 1001 final events followed by a poll of the silence monitor.
\<close>

theorem history_bounded_without_force_finalize_witness:
  "list_all (\<lambda>a. \<not> is_force_finalize (snd a))
     (replicate 1000 (1, OnFinal None (Some three_words)) @
      [(2, OnFinal None (Some three_words)), (3, MonitorPoll)]) \<and>
   length (transcription_history sample_processor) \<le> TRANSCRIPTION_CACHE_SIZE sample_env \<and>
   length (transcription_history
     (run sample_env
        (replicate 1000 (1, OnFinal None (Some three_words)) @
         [(2, OnFinal None (Some three_words)), (3, MonitorPoll)])
        sample_processor)) \<le> 1000"
proof -
  have a: "list_all (\<lambda>a. \<not> is_force_finalize (snd a))
     (replicate 1000 (1, OnFinal None (Some three_words)) @
      [(2, OnFinal None (Some three_words)), (3, MonitorPoll)])"
    by (simp add: list_all_iff)
  have b: "length (transcription_history sample_processor) \<le> TRANSCRIPTION_CACHE_SIZE sample_env"
    by simp
  have c: "length (transcription_history
     (run sample_env
        (replicate 1000 (1, OnFinal None (Some three_words)) @
         [(2, OnFinal None (Some three_words)), (3, MonitorPoll)])
        sample_processor)) \<le> 1000"
    using history_bounded_without_force_finalize [OF a b] by simp
  from a b c show ?thesis by (intro conjI)
qed

section \<open>Shutdown\<close>

text \<open>
  The two ways a first \<open>shutdown\<close> ends: on an empty history it raises \<open>KeyError\<close> for
  \<open>total_processed_audio\<close>, with \<open>shutdown_performed\<close> set and the recorder still held; on a
  history that is not empty it completes and drops the recorder.
\<close>

theorem shutdown_outcomes:
  assumes "\<not> shutdown_performed s"
  shows "(transcription_history s = [] \<longrightarrow>
            shutdown s = (Some (KeyError ''total_processed_audio''), s\<lparr>shutdown_performed := True\<rparr>)) \<and>
         (transcription_history s \<noteq> [] \<longrightarrow>
            fst (shutdown s) = None \<and> recorder (snd (shutdown s)) = None \<and>
            shutdown_performed (snd (shutdown s)))"
  using assms by (simp add: shutdown_def get_statistics_keys_def Let_def emit_def)

text \<open>The theorem at a fresh session and at a session with a full history.\<close>

theorem shutdown_outcomes_witness:
  "\<not> shutdown_performed sample_processor \<and> transcription_history sample_processor = [] \<and>
   shutdown sample_processor =
     (Some (KeyError ''total_processed_audio''), sample_processor\<lparr>shutdown_performed := True\<rparr>) \<and>
   recorder (snd (shutdown sample_processor)) \<noteq> None \<and>
   \<not> shutdown_performed full_session \<and> transcription_history full_session \<noteq> [] \<and>
   fst (shutdown full_session) = None \<and> recorder (snd (shutdown full_session)) = None"
proof -
  have a: "\<not> shutdown_performed sample_processor"
    by (simp add: sample_processor_def init_def Let_def)
  have "shutdown_performed (run sample_env (replicate n (1, OnFinal None (Some three_words))) sample_processor) =
          shutdown_performed sample_processor" for n
  proof (induction n)
    case 0
    then show ?case by simp
  next
    case (Suc n)
    have "replicate (Suc n) (1::real, OnFinal None (Some three_words)) =
            replicate n (1, OnFinal None (Some three_words)) @ [(1, OnFinal None (Some three_words))]"
      by (simp add: replicate_append_same)
    then show ?case
      using Suc by (simp add: run_append on_final_def Let_def auto_save_if_needed_def fire_def
          emit_def log_warning_def)
  qed
  then have b: "\<not> shutdown_performed full_session"
    using a by (simp add: full_session_def)
  have c: "transcription_history full_session \<noteq> []"
    using full_session_fields(1) by fastforce
  show ?thesis
    using a b c shutdown_outcomes [OF a] shutdown_outcomes [OF b]
    by simp
qed

end
